theory Spec2Isabelle
  imports Complex_Main
begin

section \<open>Exceptions\<close>

text \<open>
  The exceptions that \<^verbatim>\<open>training/dataset.py\<close> can raise on well-typed inputs:
  \<^verbatim>\<open>IndexError\<close> from list indexing, \<^verbatim>\<open>FileNotFoundError\<close> from \<^verbatim>\<open>open\<close> and
  \<^verbatim>\<open>torch.load\<close>, \<^verbatim>\<open>KeyError\<close> from dictionary lookup, \<^verbatim>\<open>ValueError\<close> from tuple
  unpacking and \<^verbatim>\<open>RuntimeError\<close> from \<^verbatim>\<open>torch.stack\<close>.
\<close>

datatype error = IndexError | FileNotFoundError | KeyError | ValueError | RuntimeError

section \<open>Two-dimensional tensors\<close>

text \<open>
  A 2-D tensor is its list of rows together with \<^verbatim>\<open>shape[1]\<close>, which a tensor keeps even
  when it has no rows. \<^verbatim>\<open>shape[0]\<close> is the number of rows. Floating-point values are
  idealised as reals.
\<close>

datatype 'a tensor = Tensor (shape1: nat) (rows: "'a list list")

definition shape0 :: "'a tensor \<Rightarrow> nat" where
  "shape0 t = length (rows t)"

definition shape :: "'a tensor \<Rightarrow> nat \<times> nat" where
  "shape t = (shape0 t, shape1 t)"

definition rectangular :: "'a tensor \<Rightarrow> bool" where
  "rectangular t = list_all (\<lambda>r. length r = shape1 t) (rows t)"

text \<open>\<^verbatim>\<open>torch.zeros(n, m, dtype=...).fill_(v)\<close>; with \<open>v = 0\<close> it is \<^verbatim>\<open>torch.zeros(n, m)\<close>.\<close>

definition full :: "nat \<Rightarrow> nat \<Rightarrow> 'a \<Rightarrow> 'a tensor" where
  "full n m v = Tensor m (replicate n (replicate m v))"

text \<open>
  \<^verbatim>\<open>torch.cat([a, b], dim=0)\<close>. Both callers build one argument with the other's
  \<^verbatim>\<open>shape[1]\<close>, so the size check of \<^verbatim>\<open>torch.cat\<close> cannot fail there.
\<close>

definition cat0 :: "'a tensor \<Rightarrow> 'a tensor \<Rightarrow> 'a tensor" where
  "cat0 a b = Tensor (shape1 a) (rows a @ rows b)"

text \<open>
  A slice bound of Python: a negative bound counts from the end, and every bound is clamped
  to the length. \<^verbatim>\<open>xs[start:stop]\<close> never raises.
\<close>

definition slice_bound :: "nat \<Rightarrow> int \<Rightarrow> nat" where
  "slice_bound n i = (if i < 0 then nat (max (i + int n) 0) else min (nat i) n)"

definition py_slice :: "'a list \<Rightarrow> int \<Rightarrow> int \<Rightarrow> 'a list" where
  "py_slice xs start stop =
     (let a = slice_bound (length xs) start; b = slice_bound (length xs) stop
      in take (b - a) (drop a xs))"

definition slice0 :: "'a tensor \<Rightarrow> int \<Rightarrow> int \<Rightarrow> 'a tensor" where
  "slice0 t start stop = Tensor (shape1 t) (py_slice (rows t) start stop)"

text \<open>\<^verbatim>\<open>t.T\<close>: the transpose of a 2-D tensor.\<close>

definition tensor_T :: "'a tensor \<Rightarrow> 'a tensor" where
  "tensor_T t = Tensor (shape0 t) (map (\<lambda>j. map (\<lambda>r. r ! j) (rows t)) [0..<shape1 t])"

text \<open>
  Python's \<^verbatim>\<open>xs[i]\<close> on a list of length \<open>n\<close>: the position read, or \<open>None\<close> where
  Python raises \<^verbatim>\<open>IndexError\<close>. A negative index counts from the end.
\<close>

definition list_index :: "nat \<Rightarrow> int \<Rightarrow> nat option" where
  "list_index n i =
     (let j = (if i < 0 then i + int n else i)
      in if 0 \<le> j \<and> j < int n then Some (nat j) else None)"

section \<open>Label tensors\<close>

text \<open>
  \<^verbatim>\<open>torch.tensor(json.load(f))\<close> of a nested list of numbers is an integer tensor when
  every number is an integer and a floating-point tensor otherwise. The dtype decides the
  zero that pads the tensor and what \<^verbatim>\<open>.float()\<close> and \<^verbatim>\<open>.long()\<close> do.
\<close>

datatype ltensor = IntT "int tensor" | FloatT "real tensor"

fun lshape0 :: "ltensor \<Rightarrow> nat" where
  "lshape0 (IntT t) = shape0 t"
| "lshape0 (FloatT t) = shape0 t"

fun lshape1 :: "ltensor \<Rightarrow> nat" where
  "lshape1 (IntT t) = shape1 t"
| "lshape1 (FloatT t) = shape1 t"

definition lshape :: "ltensor \<Rightarrow> nat \<times> nat" where
  "lshape t = (lshape0 t, lshape1 t)"

text \<open>\<^verbatim>\<open>torch.zeros(n, m, dtype=like.dtype)\<close>.\<close>

fun lzeros :: "nat \<Rightarrow> nat \<Rightarrow> ltensor \<Rightarrow> ltensor" where
  "lzeros n m (IntT t) = IntT (full n m 0)"
| "lzeros n m (FloatT t) = FloatT (full n m 0)"

text \<open>\<^verbatim>\<open>torch.cat\<close> of two label tensors; mixed dtypes are promoted to floating point.\<close>

fun lcat :: "ltensor \<Rightarrow> ltensor \<Rightarrow> ltensor" where
  "lcat (IntT a) (IntT b) = IntT (cat0 a b)"
| "lcat (FloatT a) (FloatT b) = FloatT (cat0 a b)"
| "lcat (IntT a) (FloatT b) = FloatT (cat0 (map_tensor real_of_int a) b)"
| "lcat (FloatT a) (IntT b) = FloatT (cat0 a (map_tensor real_of_int b))"

text \<open>\<^verbatim>\<open>.float()\<close> and \<^verbatim>\<open>.long()\<close>; the latter truncates towards zero.\<close>

fun to_float :: "ltensor \<Rightarrow> real tensor" where
  "to_float (IntT t) = map_tensor real_of_int t"
| "to_float (FloatT t) = t"

definition trunc :: "real \<Rightarrow> int" where
  "trunc r = (if 0 \<le> r then \<lfloor>r\<rfloor> else \<lceil>r\<rceil>)"

fun to_long :: "ltensor \<Rightarrow> int tensor" where
  "to_long (IntT t) = t"
| "to_long (FloatT t) = map_tensor trunc t"

fun is_IntT :: "ltensor \<Rightarrow> bool" where
  "is_IntT (IntT t) = True"
| "is_IntT (FloatT t) = False"

section \<open>The catalogue, the configuration and the files\<close>

record FrameInfomation =
  onset_frame :: int
  offset_frame :: int

record DatasetItem =
  basename :: string
  feature :: FrameInfomation
  label :: FrameInfomation

text \<open>
  Modelled from the spec: \<^verbatim>\<open>DatasetConfig\<close> of \<^verbatim>\<open>training.config\<close>, which is not among
  the sources. The only field the dataset reads is \<^verbatim>\<open>config.feature.log_offset\<close>, a
  positive real.
\<close>

record DatasetConfig =
  log_offset :: real

text \<open>
  Modelled from the spec: \<^verbatim>\<open>LABELS\<close> of \<^verbatim>\<open>preprocess.midi\<close>, which is not among the
  sources. The channels are onset, offset, mpe and velocity, the four keys that
  \<^verbatim>\<open>__getitem__\<close> reads.
\<close>

definition LABELS :: "string list" where
  "LABELS = [''onset'', ''offset'', ''mpe'', ''velocity'']"

text \<open>
  The dataset directory. The files \<^verbatim>\<open>features/<basename>.pt\<close> and
  \<^verbatim>\<open>labels/<basename>.<label>.json\<close> are addressed by basename and label; a file that is
  absent is \<open>None\<close>. A file that is present holds a 2-D array. Reading does not change the
  directory.
\<close>

record files =
  mapping_json :: "DatasetItem list option"
  config_json :: "DatasetConfig option"
  feature_files :: "string \<Rightarrow> real tensor option"
  label_files :: "string \<Rightarrow> string \<Rightarrow> ltensor option"

record Dataset =
  datamapping :: "DatasetItem list"
  config :: DatasetConfig
  num_frames :: int
  features :: "string \<Rightarrow> real tensor option"
  labels :: "string \<Rightarrow> (string \<times> ltensor) list option"

text \<open>The reads of artifact files, in the order they happen.\<close>

datatype load = FeatureLoad string | LabelLoad string string

text \<open>\<^verbatim>\<open>torch.load(feature_path, map_location="cpu", weights_only=True)\<close>.\<close>

definition torch_load :: "files \<Rightarrow> string \<Rightarrow> error + real tensor" where
  "torch_load fs b =
     (case feature_files fs b of None \<Rightarrow> Inl FileNotFoundError | Some t \<Rightarrow> Inr t)"

text \<open>
  The loop \<^verbatim>\<open>for label in LABELS\<close> that reads each label file into a dictionary, as both
  \<^verbatim>\<open>__init__\<close> and \<^verbatim>\<open>__getitem__\<close> have it. The dictionary is an association list in
  insertion order. The second component lists the files the loop opened.
\<close>

fun load_labels :: "files \<Rightarrow> string \<Rightarrow> string list \<Rightarrow> (error + (string \<times> ltensor) list) \<times> load list" where
  "load_labels fs b [] = (Inr [], [])"
| "load_labels fs b (l # ls) =
     (case label_files fs b l of
        None \<Rightarrow> (Inl FileNotFoundError, [LabelLoad b l])
      | Some t \<Rightarrow>
          (case load_labels fs b ls of
             (Inl e, tr) \<Rightarrow> (Inl e, LabelLoad b l # tr)
           | (Inr d, tr) \<Rightarrow> (Inr ((l, t) # d), LabelLoad b l # tr)))"

section \<open>Construction\<close>

text \<open>
  The loop of \<^verbatim>\<open>__init__\<close> that fills \<^verbatim>\<open>self.features\<close> and \<^verbatim>\<open>self.labels\<close>. An entry
  whose basename is already a key of \<^verbatim>\<open>self.features\<close> is skipped. The last argument is
  the trace of file reads so far; it is returned also when a read fails.
\<close>

fun cache_loop :: "files \<Rightarrow> DatasetItem list \<Rightarrow> Dataset \<Rightarrow> load list \<Rightarrow> (error + Dataset) \<times> load list" where
  "cache_loop fs [] self tr = (Inr self, tr)"
| "cache_loop fs (mapping # rest) self tr =
     (if features self (basename mapping) \<noteq> None then cache_loop fs rest self tr
      else
        (case torch_load fs (basename mapping) of
           Inl e \<Rightarrow> (Inl e, tr @ [FeatureLoad (basename mapping)])
         | Inr t \<Rightarrow>
             (let self1 = self\<lparr>features := (features self)(basename mapping \<mapsto> t)\<rparr> in
              (case load_labels fs (basename mapping) LABELS of
                 (Inl e, tr') \<Rightarrow> (Inl e, tr @ FeatureLoad (basename mapping) # tr')
               | (Inr d, tr') \<Rightarrow>
                   cache_loop fs rest
                     (self1\<lparr>labels := (labels self1)(basename mapping \<mapsto> d)\<rparr>)
                     (tr @ FeatureLoad (basename mapping) # tr')))))"

text \<open>\<^verbatim>\<open>Dataset.__init__(dir, num_frames)\<close>, with the trace of artifact reads.\<close>

definition init :: "files \<Rightarrow> int \<Rightarrow> (error + Dataset) \<times> load list" where
  "init fs nf =
     (case mapping_json fs of
        None \<Rightarrow> (Inl FileNotFoundError, [])
      | Some dm \<Rightarrow>
          (case config_json fs of
             None \<Rightarrow> (Inl FileNotFoundError, [])
           | Some cfg \<Rightarrow>
               cache_loop fs dm
                 \<lparr>datamapping = dm, config = cfg, num_frames = nf,
                  features = Map.empty, labels = Map.empty\<rparr> []))"

text \<open>The basenames whose feature file a trace reads, and the label files it reads.\<close>

fun feature_loads :: "load list \<Rightarrow> string list" where
  "feature_loads [] = []"
| "feature_loads (FeatureLoad b # tr) = b # feature_loads tr"
| "feature_loads (LabelLoad b l # tr) = feature_loads tr"

fun label_loads :: "load list \<Rightarrow> (string \<times> string) list" where
  "label_loads [] = []"
| "label_loads (FeatureLoad b # tr) = label_loads tr"
| "label_loads (LabelLoad b l # tr) = (b, l) # label_loads tr"

definition len :: "Dataset \<Rightarrow> nat" where
  "len self = length (datamapping self)"

section \<open>Sampling\<close>

record sample =
  spec :: "real tensor"
  onset :: ltensor
  offset :: ltensor
  mpe :: "real tensor"
  velocity :: "int tensor"

text \<open>\<^verbatim>\<open>torch.log(torch.tensor(self.config.feature.log_offset))\<close>.\<close>

definition zero_value :: "DatasetConfig \<Rightarrow> real" where
  "zero_value cfg = ln (log_offset cfg)"

text \<open>
  Lines 86 to 94: the correction of a negative onset. The two assignments to the catalogue
  entry are made in the order of the source: \<^verbatim>\<open>onset_frame\<close> is set to 0 first, and the
  new \<^verbatim>\<open>offset_frame\<close> is computed from the entry as it then is.
\<close>

definition correct_onset :: "real \<Rightarrow> DatasetItem \<Rightarrow> real tensor \<Rightarrow> real tensor \<times> DatasetItem" where
  "correct_onset z mapping ft =
     (if onset_frame (feature mapping) < 0 then
        (let pad = full (nat (- onset_frame (feature mapping))) (shape1 ft) z;
             ft1 = cat0 pad ft;
             m1 = mapping\<lparr>feature := (feature mapping)\<lparr>onset_frame := 0\<rparr>\<rparr>;
             m2 = m1\<lparr>feature := (feature m1)
                    \<lparr>offset_frame := offset_frame (feature m1) - onset_frame (feature m1)\<rparr>\<rparr>
         in (ft1, m2))
      else (ft, mapping))"

text \<open>Line 96: the slice by the span of the entry as it is after the correction.\<close>

definition feature_slice :: "real \<Rightarrow> DatasetItem \<Rightarrow> real tensor \<Rightarrow> real tensor" where
  "feature_slice z mapping ft =
     (case correct_onset z mapping ft of
        (ft1, m) \<Rightarrow> slice0 ft1 (onset_frame (feature m)) (offset_frame (feature m)))"

text \<open>Lines 97 to 103: right-padding of the feature slice.\<close>

definition pad_feature :: "int \<Rightarrow> real \<Rightarrow> real tensor \<Rightarrow> real tensor" where
  "pad_feature nf z ft =
     (if int (shape0 ft) < nf
      then cat0 ft (full (nat (nf - int (shape0 ft))) (shape1 ft) z)
      else ft)"

text \<open>Lines 107 to 115: right-padding of one label tensor.\<close>

definition pad_label :: "int \<Rightarrow> ltensor \<Rightarrow> ltensor" where
  "pad_label nf t =
     (if int (lshape0 t) < nf
      then lcat t (lzeros (nat (nf - int (lshape0 t))) (lshape1 t) t)
      else t)"

text \<open>\<^verbatim>\<open>d[k]\<close> on a dictionary.\<close>

definition lookup :: "(string \<times> 'v) list \<Rightarrow> string \<Rightarrow> error + 'v" where
  "lookup d k = (case map_of d k of None \<Rightarrow> Inl KeyError | Some v \<Rightarrow> Inr v)"

text \<open>
  Lines 85 to 122: what \<^verbatim>\<open>__getitem__\<close> computes from the loaded feature tensor and label
  dictionary of the entry at position \<open>k\<close>. The entry is an object shared with the
  catalogue, so the assignments of the onset correction update the catalogue.
\<close>

definition window :: "Dataset \<Rightarrow> nat \<Rightarrow> real tensor \<Rightarrow> (string \<times> ltensor) list \<Rightarrow> error + (sample \<times> Dataset)" where
  "window self k ft lbls =
     (let mapping = datamapping self ! k;
          z = zero_value (config self);
          mapping' = snd (correct_onset z mapping ft);
          self' = self\<lparr>datamapping := (datamapping self)[k := mapping']\<rparr>;
          ft3 = pad_feature (num_frames self) z (feature_slice z mapping ft);
          lbls' = map (\<lambda>(l, t). (l, pad_label (num_frames self) t)) lbls
      in
        (case lookup lbls' ''onset'' of Inl e \<Rightarrow> Inl e | Inr on \<Rightarrow>
         (case lookup lbls' ''offset'' of Inl e \<Rightarrow> Inl e | Inr off \<Rightarrow>
          (case lookup lbls' ''mpe'' of Inl e \<Rightarrow> Inl e | Inr mp \<Rightarrow>
           (case lookup lbls' ''velocity'' of Inl e \<Rightarrow> Inl e | Inr vel \<Rightarrow>
              Inr (\<lparr>spec = tensor_T ft3, onset = on, offset = off,
                    mpe = to_float mp, velocity = to_long vel\<rparr>, self'))))))"

text \<open>
  \<^verbatim>\<open>Dataset.__getitem__(idx)\<close>. The label files are read first, then the feature file;
  neither \<^verbatim>\<open>self.features\<close> nor \<^verbatim>\<open>self.labels\<close> is consulted. The result is the sample
  and the dataset as the call leaves it. \<^verbatim>\<open>IndexError\<close> and \<^verbatim>\<open>FileNotFoundError\<close> are
  raised before the catalogue entry is assigned to, so the dataset is then as it was; the
  four keys read at the end are in \<open>LABELS\<close>, so the \<^verbatim>\<open>KeyError\<close> branches are not taken.
\<close>

definition get_sample :: "files \<Rightarrow> Dataset \<Rightarrow> int \<Rightarrow> error + (sample \<times> Dataset)" where
  "get_sample fs self idx =
     (case list_index (length (datamapping self)) idx of
        None \<Rightarrow> Inl IndexError
      | Some k \<Rightarrow>
          (case fst (load_labels fs (basename (datamapping self ! k)) LABELS) of
             Inl e \<Rightarrow> Inl e
           | Inr lbls \<Rightarrow>
               (case torch_load fs (basename (datamapping self ! k)) of
                  Inl e \<Rightarrow> Inl e
                | Inr ft \<Rightarrow> window self k ft lbls)))"

text \<open>
  The cached path the specification describes: the same computation on the arrays held in
  \<^verbatim>\<open>self.features\<close> and \<^verbatim>\<open>self.labels\<close>. The source has no such path; this definition
  follows the specification's words and is compared with \<open>get_sample\<close>.
\<close>

definition get_sample_cached :: "Dataset \<Rightarrow> int \<Rightarrow> error + (sample \<times> Dataset)" where
  "get_sample_cached self idx =
     (case list_index (length (datamapping self)) idx of
        None \<Rightarrow> Inl IndexError
      | Some k \<Rightarrow>
          (case labels self (basename (datamapping self ! k)) of
             None \<Rightarrow> Inl KeyError
           | Some lbls \<Rightarrow>
               (case features self (basename (datamapping self ! k)) of
                  None \<Rightarrow> Inl KeyError
                | Some ft \<Rightarrow> window self k ft lbls)))"

section \<open>Collation\<close>

text \<open>A 3-D tensor: the per-item shape and the items along the leading dimension.\<close>

datatype 'a batch = Batch (item_shape: "nat \<times> nat") (items: "'a tensor list")

text \<open>
  \<^verbatim>\<open>torch.stack\<close>: raises \<^verbatim>\<open>RuntimeError\<close> on an empty sequence and when a tensor's shape
  differs from the first one's.
\<close>

definition stack :: "'a tensor list \<Rightarrow> error + 'a batch" where
  "stack ts =
     (case ts of
        [] \<Rightarrow> Inl RuntimeError
      | t # _ \<Rightarrow>
          if list_all (\<lambda>u. shape u = shape t) ts then Inr (Batch (shape t) ts)
          else Inl RuntimeError)"

datatype lbatch = IntB "int batch" | FloatB "real batch"

text \<open>\<^verbatim>\<open>torch.stack\<close> of label tensors: the result is integer only if every tensor is.\<close>

definition lstack :: "ltensor list \<Rightarrow> error + lbatch" where
  "lstack ts =
     (if list_all is_IntT ts
      then (case stack (map to_long ts) of Inl e \<Rightarrow> Inl e | Inr b \<Rightarrow> Inr (IntB b))
      else (case stack (map to_float ts) of Inl e \<Rightarrow> Inl e | Inr b \<Rightarrow> Inr (FloatB b)))"

fun lbatch_shape :: "lbatch \<Rightarrow> nat \<times> nat" where
  "lbatch_shape (IntB b) = item_shape b"
| "lbatch_shape (FloatB b) = item_shape b"

fun lbatch_size :: "lbatch \<Rightarrow> nat" where
  "lbatch_size (IntB b) = length (items b)"
| "lbatch_size (FloatB b) = length (items b)"

text \<open>The items of a stacked label batch, each with the batch's dtype.\<close>

fun lbatch_items :: "lbatch \<Rightarrow> ltensor list" where
  "lbatch_items (IntB b) = map IntT (items b)"
| "lbatch_items (FloatB b) = map FloatT (items b)"

record batched =
  specs :: "real batch"
  onsets :: lbatch
  offsets :: lbatch
  mpes :: "real batch"
  velocities :: "int batch"

text \<open>
  \<^verbatim>\<open>Dataset.collate_fn(batch)\<close>. Unpacking \<^verbatim>\<open>zip(*batch)\<close> into five names raises
  \<^verbatim>\<open>ValueError\<close> when the batch is empty.
\<close>

definition collate_fn :: "sample list \<Rightarrow> error + batched" where
  "collate_fn batch =
     (if batch = [] then Inl ValueError
      else
        (case stack (map spec batch) of Inl e \<Rightarrow> Inl e | Inr sp \<Rightarrow>
         (case lstack (map onset batch) of Inl e \<Rightarrow> Inl e | Inr on \<Rightarrow>
          (case lstack (map offset batch) of Inl e \<Rightarrow> Inl e | Inr off \<Rightarrow>
           (case stack (map mpe batch) of Inl e \<Rightarrow> Inl e | Inr mp \<Rightarrow>
            (case stack (map velocity batch) of Inl e \<Rightarrow> Inl e | Inr vel \<Rightarrow>
               Inr \<lparr>specs = sp, onsets = on, offsets = off, mpes = mp,
                    velocities = vel\<rparr>))))))"

text \<open>Two samples agree on the shape of the tensor at each of the five positions.\<close>

definition same_shapes :: "sample \<Rightarrow> sample \<Rightarrow> bool" where
  "same_shapes x y \<longleftrightarrow>
     shape (spec x) = shape (spec y) \<and> lshape (onset x) = lshape (onset y) \<and>
     lshape (offset x) = lshape (offset y) \<and> shape (mpe x) = shape (mpe y) \<and>
     shape (velocity x) = shape (velocity y)"

section \<open>A concrete dataset directory\<close>

text \<open>
  Two recordings, \<open>a\<close> and \<open>b\<close>, each with a feature array of eight frames and one bin
  and label arrays of four frames and one pitch; \<open>log_offset = 1\<close>, so the silence value is
  \<open>ln 1 = 0\<close>. The catalogue has five entries over the two recordings; the first has the
  feature span \<open>[-3, 5)\<close> and the label span \<open>[0, 2)\<close>.
\<close>

definition ex_feature :: "real tensor" where
  "ex_feature = Tensor 1 [[1], [2], [3], [4], [5], [6], [7], [8]]"

definition ex_label :: ltensor where
  "ex_label = IntT (Tensor 1 [[1], [1], [0], [1]])"

definition ex_item :: "string \<Rightarrow> int \<Rightarrow> int \<Rightarrow> int \<Rightarrow> int \<Rightarrow> DatasetItem" where
  "ex_item b f0 f1 l0 l1 =
     \<lparr>basename = b, feature = \<lparr>onset_frame = f0, offset_frame = f1\<rparr>,
      label = \<lparr>onset_frame = l0, offset_frame = l1\<rparr>\<rparr>"

definition ex_catalogue :: "DatasetItem list" where
  "ex_catalogue =
     [ex_item ''a'' (-3) 5 0 2, ex_item ''b'' 0 3 0 3, ex_item ''a'' 2 6 1 3,
      ex_item ''a'' 0 8 0 4, ex_item ''b'' 4 20 2 4]"

definition ex_files :: files where
  "ex_files =
     \<lparr>mapping_json = Some ex_catalogue,
      config_json = Some \<lparr>log_offset = 1\<rparr>,
      feature_files = (\<lambda>b. if b = ''a'' \<or> b = ''b'' then Some ex_feature else None),
      label_files = (\<lambda>b l. if b = ''a'' \<or> b = ''b'' then Some ex_label else None)\<rparr>"

text \<open>The dataset object over \<open>ex_files\<close> with the caches left empty.\<close>

definition ex_dataset :: "int \<Rightarrow> Dataset" where
  "ex_dataset nf =
     \<lparr>datamapping = ex_catalogue, config = \<lparr>log_offset = 1\<rparr>, num_frames = nf,
      features = Map.empty, labels = Map.empty\<rparr>"

text \<open>
  What the first call \<open>get_sample 0\<close> returns for \<open>num_frames = 128\<close>, and the dataset as
  that call leaves it.
\<close>

definition ex_sample_0 :: sample where
  "ex_sample_0 =
     \<lparr>spec = Tensor 128 [replicate 3 0 @ [1, 2] @ replicate 123 0],
      onset = IntT (Tensor 1 ([[1], [1], [0], [1]] @ replicate 124 [0])),
      offset = IntT (Tensor 1 ([[1], [1], [0], [1]] @ replicate 124 [0])),
      mpe = Tensor 1 ([[1], [1], [0], [1]] @ replicate 124 [0]),
      velocity = Tensor 1 ([[1], [1], [0], [1]] @ replicate 124 [0])\<rparr>"

definition ex_dataset_1 :: Dataset where
  "ex_dataset_1 = (ex_dataset 128)\<lparr>datamapping := ex_catalogue[0 := ex_item ''a'' 0 5 0 2]\<rparr>"

section \<open>Basic facts\<close>

lemma shape0_full: "shape0 (full n m v) = n"
  by (simp add: shape0_def full_def)

lemma load_labels_error: "fst (load_labels fs b ls) = Inl e \<Longrightarrow> e = FileNotFoundError"
  by (induction ls) (auto split: option.splits prod.splits sum.splits)

lemma load_labels_LABELS:
  "fst (load_labels fs b LABELS) = Inr d \<longleftrightarrow>
     (\<exists>t1 t2 t3 t4. label_files fs b ''onset'' = Some t1 \<and> label_files fs b ''offset'' = Some t2 \<and>
        label_files fs b ''mpe'' = Some t3 \<and> label_files fs b ''velocity'' = Some t4 \<and>
        d = [(''onset'', t1), (''offset'', t2), (''mpe'', t3), (''velocity'', t4)])"
  by (auto simp: LABELS_def split: option.splits)

lemma window_LABELS:
  "window self k ft [(''onset'', t1), (''offset'', t2), (''mpe'', t3), (''velocity'', t4)] =
     Inr (\<lparr>spec = tensor_T (pad_feature (num_frames self) (zero_value (config self))
                      (feature_slice (zero_value (config self)) (datamapping self ! k) ft)),
           onset = pad_label (num_frames self) t1,
           offset = pad_label (num_frames self) t2,
           mpe = to_float (pad_label (num_frames self) t3),
           velocity = to_long (pad_label (num_frames self) t4)\<rparr>,
          self\<lparr>datamapping := (datamapping self)
             [k := snd (correct_onset (zero_value (config self)) (datamapping self ! k) ft)]\<rparr>)"
  by (simp add: window_def lookup_def Let_def)

lemma get_sample_Inr_iff:
  "get_sample fs self idx = Inr r \<longleftrightarrow>
     (\<exists>k ft t1 t2 t3 t4.
        list_index (length (datamapping self)) idx = Some k \<and>
        feature_files fs (basename (datamapping self ! k)) = Some ft \<and>
        label_files fs (basename (datamapping self ! k)) ''onset'' = Some t1 \<and>
        label_files fs (basename (datamapping self ! k)) ''offset'' = Some t2 \<and>
        label_files fs (basename (datamapping self ! k)) ''mpe'' = Some t3 \<and>
        label_files fs (basename (datamapping self ! k)) ''velocity'' = Some t4 \<and>
        r = (\<lparr>spec = tensor_T (pad_feature (num_frames self) (zero_value (config self))
                      (feature_slice (zero_value (config self)) (datamapping self ! k) ft)),
              onset = pad_label (num_frames self) t1,
              offset = pad_label (num_frames self) t2,
              mpe = to_float (pad_label (num_frames self) t3),
              velocity = to_long (pad_label (num_frames self) t4)\<rparr>,
             self\<lparr>datamapping := (datamapping self)
               [k := snd (correct_onset (zero_value (config self)) (datamapping self ! k) ft)]\<rparr>))"
proof -
  have "get_sample fs self idx = Inr r \<longleftrightarrow>
    (\<exists>k d ft. list_index (length (datamapping self)) idx = Some k \<and>
       fst (load_labels fs (basename (datamapping self ! k)) LABELS) = Inr d \<and>
       feature_files fs (basename (datamapping self ! k)) = Some ft \<and>
       window self k ft d = Inr r)"
    by (auto simp: get_sample_def torch_load_def split: option.splits sum.splits)
  then show ?thesis
    unfolding load_labels_LABELS by (auto simp: window_LABELS)
qed

lemma get_sample_InrI:
  assumes "list_index (length (datamapping self)) idx = Some k"
    and "datamapping self ! k = m"
    and "feature_files fs (basename m) = Some ft"
    and "label_files fs (basename m) ''onset'' = Some t1"
    and "label_files fs (basename m) ''offset'' = Some t2"
    and "label_files fs (basename m) ''mpe'' = Some t3"
    and "label_files fs (basename m) ''velocity'' = Some t4"
    and "zero_value (config self) = z"
    and "num_frames self = nf"
  shows "get_sample fs self idx =
     Inr (\<lparr>spec = tensor_T (pad_feature nf z (feature_slice z m ft)),
           onset = pad_label nf t1, offset = pad_label nf t2,
           mpe = to_float (pad_label nf t3), velocity = to_long (pad_label nf t4)\<rparr>,
          self\<lparr>datamapping := (datamapping self)[k := snd (correct_onset z m ft)]\<rparr>)"
  using assms unfolding get_sample_Inr_iff by blast

lemma list_index_valid:
  "0 \<le> idx \<Longrightarrow> idx < int n \<Longrightarrow> list_index n idx = Some (nat idx)"
  by (simp add: list_index_def)

lemma list_index_None: "list_index n idx = None \<longleftrightarrow> idx < - int n \<or> int n \<le> idx"
  by (auto simp: list_index_def Let_def)

lemma list_index_wrap:
  "- int n \<le> idx \<Longrightarrow> idx < 0 \<Longrightarrow> list_index n idx = list_index n (idx + int n)"
  by (simp add: list_index_def)

lemma window_error: "window self k ft lbls = Inl e \<Longrightarrow> e = KeyError"
  by (auto simp: window_def lookup_def Let_def split: option.splits sum.splits)

lemma get_sample_IndexError:
  "get_sample fs self idx = Inl IndexError \<longleftrightarrow> list_index (length (datamapping self)) idx = None"
  by (auto simp: get_sample_def torch_load_def split: option.splits sum.splits
      dest: load_labels_error window_error)

lemma shape1_tensor_T: "shape1 (tensor_T t) = shape0 t"
  by (simp add: tensor_T_def)

lemma rectangular_tensor_T: "rectangular (tensor_T t)"
  by (simp add: rectangular_def tensor_T_def shape0_def list_all_iff)

lemma pad_feature_short:
  "int (shape0 t) < nf \<Longrightarrow>
     pad_feature nf z t =
       Tensor (shape1 t) (rows t @ replicate (nat (nf - int (shape0 t))) (replicate (shape1 t) z))"
  by (simp add: pad_feature_def cat0_def full_def)

lemma pad_feature_long: "nf \<le> int (shape0 t) \<Longrightarrow> pad_feature nf z t = t"
  by (simp add: pad_feature_def)

lemma shape0_pad_feature: "int (shape0 t) < nf \<Longrightarrow> int (shape0 (pad_feature nf z t)) = nf"
  by (simp add: pad_feature_short shape0_def)

lemma lcat_lzeros_0: "lcat t (lzeros 0 m t) = t"
  by (cases t) (simp_all add: cat0_def full_def)

lemma pad_label_eq:
  "pad_label nf t = lcat t (lzeros (nat (nf - int (lshape0 t))) (lshape1 t) t)"
  by (simp add: pad_label_def lcat_lzeros_0)

lemma lshape0_lcat_lzeros: "lshape0 (lcat t (lzeros n m t)) = lshape0 t + n"
  by (cases t) (simp_all add: cat0_def full_def shape0_def)

lemma lshape0_pad_label: "int (lshape0 (pad_label nf t)) = max nf (int (lshape0 t))"
  by (simp add: pad_label_eq lshape0_lcat_lzeros)

lemma get_sample_valid_iff:
  assumes "0 \<le> idx" "idx < int (len self)"
  shows "get_sample fs self idx = Inr r \<longleftrightarrow>
     (\<exists>ft t1 t2 t3 t4.
        feature_files fs (basename (datamapping self ! nat idx)) = Some ft \<and>
        label_files fs (basename (datamapping self ! nat idx)) ''onset'' = Some t1 \<and>
        label_files fs (basename (datamapping self ! nat idx)) ''offset'' = Some t2 \<and>
        label_files fs (basename (datamapping self ! nat idx)) ''mpe'' = Some t3 \<and>
        label_files fs (basename (datamapping self ! nat idx)) ''velocity'' = Some t4 \<and>
        r = (\<lparr>spec = tensor_T (pad_feature (num_frames self) (zero_value (config self))
                      (feature_slice (zero_value (config self)) (datamapping self ! nat idx) ft)),
              onset = pad_label (num_frames self) t1,
              offset = pad_label (num_frames self) t2,
              mpe = to_float (pad_label (num_frames self) t3),
              velocity = to_long (pad_label (num_frames self) t4)\<rparr>,
             self\<lparr>datamapping := (datamapping self)
               [nat idx := snd (correct_onset (zero_value (config self)) (datamapping self ! nat idx) ft)]\<rparr>))"
  using assms by (simp add: get_sample_Inr_iff list_index_valid len_def)

lemma correct_onset_nonneg:
  "0 \<le> onset_frame (feature m) \<Longrightarrow> correct_onset z m ft = (ft, m)"
  by (simp add: correct_onset_def)

lemma correct_onset_entry:
  "basename (snd (correct_onset z m ft)) = basename m"
  "label (snd (correct_onset z m ft)) = label m"
  "onset_frame (feature (snd (correct_onset z m ft))) = max 0 (onset_frame (feature m))"
  by (simp_all add: correct_onset_def Let_def)

text \<open>
  The subtraction of lines 92 to 94 changes nothing: for every entry, the end frame after
  the correction is the end frame before it.
\<close>

lemma correct_onset_offset_frame:
  "offset_frame (feature (snd (correct_onset z m ft))) = offset_frame (feature m)"
  by (simp add: correct_onset_def Let_def)

section \<open>The concrete directory, evaluated\<close>

lemma ex_entries:
  "length ex_catalogue = 5"
  "ex_catalogue ! 0 = ex_item ''a'' (- 3) 5 0 2"
  "ex_catalogue ! Suc 0 = ex_item ''b'' 0 3 0 3"
  "ex_catalogue ! 2 = ex_item ''a'' 2 6 1 3"
  by (simp_all add: ex_catalogue_def)

lemma ex_files_a:
  "feature_files ex_files ''a'' = Some ex_feature"
  "label_files ex_files ''a'' c = Some ex_label"
  by (simp_all add: ex_files_def)

lemma ex_dataset_fields:
  "zero_value (config (ex_dataset nf)) = 0"
  "num_frames (ex_dataset nf) = nf"
  "datamapping (ex_dataset nf) = ex_catalogue"
  "len (ex_dataset nf) = 5"
  by (simp_all add: zero_value_def ex_dataset_def len_def ex_catalogue_def)

lemma ex_item_fields:
  "basename (ex_item b f0 f1 l0 l1) = b"
  "onset_frame (feature (ex_item b f0 f1 l0 l1)) = f0"
  by (simp_all add: ex_item_def)

lemma ex_slice_neg:
  "feature_slice 0 (ex_item ''a'' (- 3) 5 0 2) ex_feature = Tensor 1 (replicate 3 [0] @ [[1], [2]])"
  by (simp add: feature_slice_def correct_onset_def ex_item_def ex_feature_def full_def cat0_def
     slice0_def py_slice_def slice_bound_def)

lemma ex_correct_neg:
  "snd (correct_onset 0 (ex_item ''a'' (- 3) 5 0 2) ex_feature) = ex_item ''a'' 0 5 0 2"
  by (simp add: correct_onset_def ex_item_def)

lemma ex_pad_feature_128:
  "pad_feature 128 0 (Tensor 1 (replicate 3 [0] @ [[1], [2]])) =
     Tensor 1 (replicate 3 [0] @ [[1], [2]] @ replicate 123 [0])"
  by (simp add: pad_feature_def shape0_def full_def cat0_def)

lemma ex_T_128:
  "tensor_T (Tensor 1 (replicate 3 [0] @ [[1], [2]] @ replicate 123 [0::real])) =
     Tensor 128 [replicate 3 0 @ [1, 2] @ replicate 123 0]"
  by (simp add: tensor_T_def shape0_def)

lemma ex_pad_label_128:
  "pad_label 128 ex_label = IntT (Tensor 1 ([[1], [1], [0], [1]] @ replicate 124 [0]))"
  by (simp add: pad_label_def ex_label_def shape0_def full_def cat0_def)

lemma ex_casts_128:
  "to_float (IntT (Tensor 1 ([[1], [1], [0], [1]] @ replicate 124 [0]))) =
      Tensor 1 ([[1], [1], [0], [1]] @ replicate 124 [0])"
  "to_long (IntT (Tensor 1 ([[1], [1], [0], [1]] @ replicate 124 [0]))) =
      Tensor 1 ([[1], [1], [0], [1]] @ replicate 124 [0])"
  by simp_all

lemma ex_first_call:
  "get_sample ex_files (ex_dataset 128) 0 = Inr (ex_sample_0, ex_dataset_1)"
proof -
  have k: "list_index (length (datamapping (ex_dataset 128))) 0 = Some 0"
    by (simp add: ex_dataset_fields ex_entries list_index_def)
  have m: "datamapping (ex_dataset 128) ! 0 = ex_item ''a'' (- 3) 5 0 2"
    by (simp add: ex_dataset_fields ex_entries)
  show ?thesis
    by (simp only: get_sample_InrI [OF k m, unfolded ex_item_fields,
          OF ex_files_a(1) ex_files_a(2) ex_files_a(2) ex_files_a(2) ex_files_a(2)
             ex_dataset_fields(1) ex_dataset_fields(2)]
        ex_slice_neg ex_correct_neg ex_pad_feature_128 ex_T_128 ex_pad_label_128 ex_casts_128
        ex_dataset_fields(3) ex_sample_0_def ex_dataset_1_def)
qed

lemma ex_pad_label_3: "pad_label 3 ex_label = ex_label"
  by (simp add: pad_label_def ex_label_def shape0_def)

lemma ex_second_call_spec:
  "tensor_T (pad_feature 128 0 (feature_slice 0 (ex_item ''a'' 0 5 0 2) ex_feature)) =
     Tensor 128 [[1, 2, 3, 4, 5] @ replicate 123 0]"
proof -
  have "feature_slice 0 (ex_item ''a'' 0 5 0 2) ex_feature = Tensor 1 [[1], [2], [3], [4], [5]]"
    by (simp add: feature_slice_def correct_onset_def ex_item_def ex_feature_def slice0_def
        py_slice_def slice_bound_def)
  moreover have "pad_feature 128 0 (Tensor 1 [[1], [2], [3], [4], [5]]) =
      Tensor 1 ([[1], [2], [3], [4], [5]] @ replicate 123 [0])"
    by (simp add: pad_feature_def shape0_def full_def cat0_def)
  moreover have "tensor_T (Tensor 1 ([[1], [2], [3], [4], [5]] @ replicate 123 [0::real])) =
      Tensor 128 [[1, 2, 3, 4, 5] @ replicate 123 0]"
    by (simp add: tensor_T_def shape0_def)
  ultimately show ?thesis by simp
qed

section \<open>Negative onsets\<close>

text \<open>
  Claim C1, evaluated on the code. The claim says that for a feature span \<open>[-3, 5)\<close> and
  \<open>num_frames = 128\<close> the slice of the prepended array is \<open>[0, 5 - (-3))\<close>, so that the
  output is 3 silence frames, the source rows \<open>[0, 5)\<close> and 120 silence frames. The code
  assigns \<open>onset_frame = 0\<close> before it computes \<open>offset_frame - onset_frame\<close>, so the end
  frame stays 5: on a source of eight frames \<open>1, \<dots>, 8\<close> the output is 3 silence frames,
  the source rows \<open>[0, 2)\<close> and 123 silence frames, and the catalogue entry is left with the
  span \<open>[0, 5)\<close>.
\<close>

theorem C1_negative_onset_end_frame_not_shifted:
  "feature (datamapping (ex_dataset 128) ! 0) = \<lparr>onset_frame = - 3, offset_frame = 5\<rparr> \<and>
   num_frames (ex_dataset 128) = 128 \<and>
   feature_files ex_files (basename (datamapping (ex_dataset 128) ! 0)) =
     Some (Tensor 1 [[1], [2], [3], [4], [5], [6], [7], [8]]) \<and>
   (\<exists>s self'. get_sample ex_files (ex_dataset 128) 0 = Inr (s, self') \<and>
      spec s = Tensor 128 [replicate 3 0 @ [1, 2] @ replicate 123 0] \<and>
      spec s \<noteq> Tensor 128 [replicate 3 0 @ [1, 2, 3, 4, 5] @ replicate 120 0] \<and>
      feature (datamapping self' ! 0) = \<lparr>onset_frame = 0, offset_frame = 5\<rparr>)"
proof -
  have a: "feature (datamapping (ex_dataset 128) ! 0) = \<lparr>onset_frame = - 3, offset_frame = 5\<rparr>"
    "feature_files ex_files (basename (datamapping (ex_dataset 128) ! 0)) =
       Some (Tensor 1 [[1], [2], [3], [4], [5], [6], [7], [8]])"
    by (simp_all add: ex_dataset_fields ex_entries ex_item_def ex_files_def ex_feature_def)
  have b: "spec ex_sample_0 = Tensor 128 [replicate 3 0 @ [1, 2] @ replicate 123 0]"
    by (simp add: ex_sample_0_def)
  have c: "Tensor 128 [replicate 3 0 @ [1, 2] @ replicate 123 0] \<noteq>
      Tensor 128 [replicate 3 0 @ [1, 2, 3, 4, 5] @ replicate 120 (0::real)]"
    by (simp add: eval_nat_numeral)
  have d: "feature (datamapping ex_dataset_1 ! 0) = \<lparr>onset_frame = 0, offset_frame = 5\<rparr>"
    by (simp add: ex_dataset_1_def ex_entries ex_item_def)
  from ex_first_call a b c d show ?thesis
    by (simp add: ex_dataset_fields)
qed

section \<open>Label outputs\<close>

text \<open>
  Claim C2, evaluated on the code. The claim says that each label tensor is the rows
  \<open>label_span.start_frame : label_span.end_frame\<close> of the channel's artifact, right-padded
  with zero rows to \<open>num_frames\<close> rows. \<^verbatim>\<open>__getitem__\<close> never reads \<^verbatim>\<open>mapping.label\<close>, although
  it slices the feature array by \<^verbatim>\<open>mapping.feature\<close>: with \<open>num_frames = 3\<close>, the label span
  \<open>[0, 2)\<close> and an onset artifact of the four rows \<open>1, 1, 0, 1\<close>, the claim gives the three
  rows \<open>1, 1, 0\<close> (two rows of the slice and one zero row), and the code returns all four
  rows of the artifact.
\<close>

theorem C2_labels_not_sliced:
  "\<exists>s self'. get_sample ex_files (ex_dataset 3) 0 = Inr (s, self') \<and>
     label (datamapping (ex_dataset 3) ! 0) = \<lparr>onset_frame = 0, offset_frame = 2\<rparr> \<and>
     onset s = IntT (Tensor 1 [[1], [1], [0], [1]]) \<and>
     onset s \<noteq> IntT (Tensor 1 [[1], [1], [0]]) \<and>
     int (lshape0 (onset s)) \<noteq> num_frames (ex_dataset 3)"
proof -
  have k: "list_index (length (datamapping (ex_dataset 3))) 0 = Some 0"
    by (simp add: ex_dataset_fields ex_entries list_index_def)
  have m: "datamapping (ex_dataset 3) ! 0 = ex_item ''a'' (- 3) 5 0 2"
    by (simp add: ex_dataset_fields ex_entries)
  note r = get_sample_InrI [OF k m, unfolded ex_item_fields,
          OF ex_files_a(1) ex_files_a(2) ex_files_a(2) ex_files_a(2) ex_files_a(2)
             ex_dataset_fields(1) ex_dataset_fields(2)]
  have l: "label (ex_item ''a'' (- 3) 5 0 2) = \<lparr>onset_frame = 0, offset_frame = 2\<rparr>"
    by (simp add: ex_item_def)
  show ?thesis
    unfolding r m l ex_pad_label_3 by (simp add: ex_label_def shape0_def ex_dataset_fields)
qed

section \<open>What a call writes\<close>

text \<open>
  Claim C3 as stated fails: the first call on an entry with a negative feature onset
  overwrites the entry's \<open>onset_frame\<close> with 0 in the catalogue, and a second call on the
  same index then returns a different feature tensor.
\<close>

theorem C3_no_shared_write_counterexample:
  "get_sample ex_files (ex_dataset 128) 0 = Inr (ex_sample_0, ex_dataset_1) \<and>
   onset_frame (feature (datamapping (ex_dataset 128) ! 0)) = - 3 \<and>
   onset_frame (feature (datamapping ex_dataset_1 ! 0)) = 0 \<and>
   ex_dataset_1 \<noteq> ex_dataset 128 \<and>
   (\<exists>s self'. get_sample ex_files ex_dataset_1 0 = Inr (s, self') \<and>
      spec s = Tensor 128 [[1, 2, 3, 4, 5] @ replicate 123 0] \<and>
      spec s \<noteq> spec ex_sample_0)"
proof -
  have d1: "datamapping ex_dataset_1 = ex_catalogue[0 := ex_item ''a'' 0 5 0 2]"
    "zero_value (config ex_dataset_1) = 0" "num_frames ex_dataset_1 = 128"
    by (simp_all add: ex_dataset_1_def ex_dataset_fields zero_value_def ex_dataset_def)
  have k: "list_index (length (datamapping ex_dataset_1)) 0 = Some 0"
    by (simp add: d1 ex_entries list_index_def)
  have m: "datamapping ex_dataset_1 ! 0 = ex_item ''a'' 0 5 0 2"
    by (simp add: d1 ex_entries)
  note r = get_sample_InrI [OF k m, unfolded ex_item_fields,
      OF ex_files_a(1) ex_files_a(2) ex_files_a(2) ex_files_a(2) ex_files_a(2) d1(2) d1(3)]
  have ne: "Tensor 128 [[1, 2, 3, 4, 5] @ replicate 123 0] \<noteq> spec ex_sample_0"
    by (simp add: ex_sample_0_def eval_nat_numeral)
  have a: "onset_frame (feature (datamapping (ex_dataset 128) ! 0)) = - 3"
    by (simp add: ex_dataset_fields ex_entries ex_item_fields)
  have b: "onset_frame (feature (datamapping ex_dataset_1 ! 0)) = 0"
    by (simp add: m ex_item_fields)
  from a b have c: "ex_dataset_1 \<noteq> ex_dataset 128"
    by auto
  have "\<exists>s self'. get_sample ex_files ex_dataset_1 0 = Inr (s, self') \<and>
      spec s = Tensor 128 [[1, 2, 3, 4, 5] @ replicate 123 0] \<and>
      spec s \<noteq> spec ex_sample_0"
    unfolding r using ne by (simp add: ex_second_call_spec)
  with ex_first_call a b c show ?thesis by blast
qed

text \<open>
  Claim C3 as amended. For a valid index, a call that returns writes no shared state of the
  dataset object other than the feature span of the indexed catalogue entry: the cached
  arrays, the configuration, \<open>num_frames\<close>, the length of the catalogue, every other entry,
  and the basename and the label span of the indexed entry are unchanged, and the entry's
  feature \<open>onset_frame\<close> is afterwards \<open>max 0\<close> of what it was. When that \<open>onset_frame\<close> was not
  negative, the whole dataset object is unchanged and calling again on the same index
  returns an equal result. In every case a further call on the same index returns and
  leaves the dataset as the first call left it.
\<close>

theorem C3_frame:
  assumes "0 \<le> idx" and "idx < int (len self)"
    and "get_sample fs self idx = Inr (s, self')"
  shows "features self' = features self \<and> labels self' = labels self \<and>
         config self' = config self \<and> num_frames self' = num_frames self \<and>
         length (datamapping self') = length (datamapping self) \<and>
         (\<forall>j. j \<noteq> nat idx \<longrightarrow> datamapping self' ! j = datamapping self ! j) \<and>
         basename (datamapping self' ! nat idx) = basename (datamapping self ! nat idx) \<and>
         label (datamapping self' ! nat idx) = label (datamapping self ! nat idx) \<and>
         onset_frame (feature (datamapping self' ! nat idx)) =
           max 0 (onset_frame (feature (datamapping self ! nat idx))) \<and>
         (0 \<le> onset_frame (feature (datamapping self ! nat idx)) \<longrightarrow>
            self' = self \<and> get_sample fs self' idx = Inr (s, self')) \<and>
         (\<exists>s2. get_sample fs self' idx = Inr (s2, self'))"
proof -
  let ?k = "nat idx" and ?z = "zero_value (config self)"
  let ?m = "datamapping self ! ?k"
  from assms(3) obtain ft t1 t2 t3 t4 where
    ft: "feature_files fs (basename ?m) = Some ft"
    and t: "label_files fs (basename ?m) ''onset'' = Some t1"
      "label_files fs (basename ?m) ''offset'' = Some t2"
      "label_files fs (basename ?m) ''mpe'' = Some t3"
      "label_files fs (basename ?m) ''velocity'' = Some t4"
    and self': "self' = self\<lparr>datamapping := (datamapping self)[?k := snd (correct_onset ?z ?m ft)]\<rparr>"
    by (auto simp: get_sample_valid_iff [OF assms(1,2)])
  let ?m' = "snd (correct_onset ?z ?m ft)"
  have k: "?k < length (datamapping self)"
    using assms(1,2) by (simp add: len_def)
  have m': "datamapping self' ! ?k = ?m'"
    using k by (simp add: self')
  have fields: "features self' = features self" "labels self' = labels self"
    "config self' = config self" "num_frames self' = num_frames self"
    "length (datamapping self') = length (datamapping self)"
    by (simp_all add: self')
  have others: "\<forall>j. j \<noteq> ?k \<longrightarrow> datamapping self' ! j = datamapping self ! j"
    by (simp add: self')
  have same: "self' = self" if "0 \<le> onset_frame (feature ?m)"
    using that by (simp add: self' correct_onset_nonneg)
  have len': "idx < int (len self')"
    using assms(2) by (simp add: len_def fields)
  have nonneg: "0 \<le> onset_frame (feature ?m')"
    by (simp add: correct_onset_entry)
  have again: "self'\<lparr>datamapping := (datamapping self')
      [?k := snd (correct_onset (zero_value (config self')) (datamapping self' ! ?k) ft)]\<rparr> = self'"
    by (simp add: m' correct_onset_nonneg [OF nonneg] list_update_id [of "datamapping self'" ?k, unfolded m'])
  have "\<exists>r. get_sample fs self' idx = Inr (r, self')"
    unfolding get_sample_valid_iff [OF assms(1) len'] m' correct_onset_entry
    using ft t again [unfolded m'] by auto
  then obtain s2 where "get_sample fs self' idx = Inr (s2, self')" ..
  with fields others m' same assms(3) show ?thesis
    by (auto simp: correct_onset_entry)
qed

theorem C3_frame_witness:
  "(\<exists>s. get_sample ex_files (ex_dataset 128) 1 = Inr (s, ex_dataset 128)) \<and>
   (\<exists>s self'. get_sample ex_files (ex_dataset 128) 0 = Inr (s, self') \<and>
      basename (datamapping self' ! 0) = ''a'' \<and>
      label (datamapping self' ! 0) = \<lparr>onset_frame = 0, offset_frame = 2\<rparr> \<and>
      onset_frame (feature (datamapping self' ! 0)) = 0 \<and>
      (\<exists>s2. get_sample ex_files self' 0 = Inr (s2, self')))"
proof -
  have len: "(0::int) \<le> 1" "1 < int (len (ex_dataset 128))"
    and len0: "(0::int) \<le> 0" "0 < int (len (ex_dataset 128))"
    by (simp_all add: ex_dataset_fields)
  have "\<exists>r. get_sample ex_files (ex_dataset 128) 1 = Inr r"
    unfolding get_sample_valid_iff [OF len]
    by (simp add: ex_dataset_fields ex_entries ex_item_fields ex_files_def)
  then obtain s self' where r: "get_sample ex_files (ex_dataset 128) 1 = Inr (s, self')"
    by (metis surj_pair)
  have "0 \<le> onset_frame (feature (datamapping (ex_dataset 128) ! nat 1))"
    by (simp add: ex_dataset_fields ex_entries ex_item_fields)
  with C3_frame [OF len r] have "self' = ex_dataset 128"
    by blast
  with r have a: "\<exists>s. get_sample ex_files (ex_dataset 128) 1 = Inr (s, ex_dataset 128)"
    by blast
  have e: "datamapping (ex_dataset 128) ! 0 = ex_item ''a'' (- 3) 5 0 2"
    by (simp add: ex_dataset_fields ex_entries)
  have l: "label (ex_item ''a'' (- 3) 5 0 2) = \<lparr>onset_frame = 0, offset_frame = 2\<rparr>"
    by (simp add: ex_item_def)
  have n: "nat 0 = 0" "max 0 (- 3 :: int) = 0" by simp_all
  note c = C3_frame [OF len0 ex_first_call, unfolded n e ex_item_fields l]
  from c have p: "basename (datamapping ex_dataset_1 ! 0) = ''a'' \<and>
      label (datamapping ex_dataset_1 ! 0) = \<lparr>onset_frame = 0, offset_frame = 2\<rparr> \<and>
      onset_frame (feature (datamapping ex_dataset_1 ! 0)) = 0 \<and>
      (\<exists>s2. get_sample ex_files ex_dataset_1 0 = Inr (s2, ex_dataset_1))"
    by (elim conjE) (intro conjI; assumption)
  with ex_first_call have "get_sample ex_files (ex_dataset 128) 0 = Inr (ex_sample_0, ex_dataset_1) \<and>
      basename (datamapping ex_dataset_1 ! 0) = ''a'' \<and>
      label (datamapping ex_dataset_1 ! 0) = \<lparr>onset_frame = 0, offset_frame = 2\<rparr> \<and>
      onset_frame (feature (datamapping ex_dataset_1 ! 0)) = 0 \<and>
      (\<exists>s2. get_sample ex_files ex_dataset_1 0 = Inr (s2, ex_dataset_1))"
    by (rule conjI)
  then have
    "\<exists>s self'. get_sample ex_files (ex_dataset 128) 0 = Inr (s, self') \<and>
      basename (datamapping self' ! 0) = ''a'' \<and>
      label (datamapping self' ! 0) = \<lparr>onset_frame = 0, offset_frame = 2\<rparr> \<and>
      onset_frame (feature (datamapping self' ! 0)) = 0 \<and>
      (\<exists>s2. get_sample ex_files self' 0 = Inr (s2, self'))"
    by (rule exI [of _ ex_dataset_1, THEN exI [of _ ex_sample_0]])
  with a show ?thesis by blast
qed

section \<open>Index errors\<close>

text \<open>
  Claim C4 as stated fails: the index \<open>-5\<close> is outside \<open>0 \<le> index < 5\<close>, yet on a catalogue
  of five entries the call does not raise and returns the sample of entry 0.
\<close>

theorem C4_index_error_counterexample:
  "\<not> (0 \<le> (- 5 :: int) \<and> - 5 < int (len (ex_dataset 128))) \<and>
   get_sample ex_files (ex_dataset 128) (- 5) = Inr (ex_sample_0, ex_dataset_1)"
proof -
  have "list_index (length (datamapping (ex_dataset 128))) (- 5) =
      list_index (length (datamapping (ex_dataset 128))) 0"
    by (simp add: ex_dataset_fields ex_entries list_index_def)
  then have "get_sample ex_files (ex_dataset 128) (- 5) = get_sample ex_files (ex_dataset 128) 0"
    by (simp add: get_sample_def)
  then show ?thesis
    by (simp add: ex_first_call)
qed

text \<open>
  Claim C4 as amended. \<^verbatim>\<open>__getitem__\<close> raises \<^verbatim>\<open>IndexError\<close> if and only if
  \<open>index < -length\<close> or \<open>index \<ge> length\<close>; an index with \<open>-length \<le> index < 0\<close> is not
  rejected but answered as \<open>index + length\<close>.
\<close>

theorem C4_index_error:
  "(get_sample fs self idx = Inl IndexError \<longleftrightarrow>
      idx < - int (len self) \<or> int (len self) \<le> idx) \<and>
   (- int (len self) \<le> idx \<and> idx < 0 \<longrightarrow>
      get_sample fs self idx = get_sample fs self (idx + int (len self)))"
proof (intro conjI impI)
  show "get_sample fs self idx = Inl IndexError \<longleftrightarrow>
      idx < - int (len self) \<or> int (len self) \<le> idx"
    by (simp add: get_sample_IndexError list_index_None len_def)
next
  assume "- int (len self) \<le> idx \<and> idx < 0"
  then have "list_index (length (datamapping self)) idx =
      list_index (length (datamapping self)) (idx + int (len self))"
    by (simp add: list_index_wrap len_def)
  then show "get_sample fs self idx = get_sample fs self (idx + int (len self))"
    by (simp add: get_sample_def)
qed

theorem C4_index_error_witness:
  "get_sample ex_files (ex_dataset 128) (- 1) = get_sample ex_files (ex_dataset 128) 4 \<and>
   get_sample ex_files (ex_dataset 128) 5 = Inl IndexError \<and>
   get_sample ex_files (ex_dataset 128) (- 6) = Inl IndexError"
  using C4_index_error [of ex_files "ex_dataset 128" "- 1"]
    C4_index_error [of ex_files "ex_dataset 128" 5]
    C4_index_error [of ex_files "ex_dataset 128" "- 6"]
  by (simp add: ex_dataset_fields)

section \<open>Feature padding\<close>

text \<open>
  Claim C5. For a valid index, let \<open>sl\<close> be the slice that \<^verbatim>\<open>__getitem__\<close> takes from the
  (possibly corrected) feature array. If \<open>sl\<close> has fewer than \<open>num_frames\<close> rows, the
  returned feature tensor is the transpose of \<open>sl\<close> followed by exactly
  \<open>num_frames - len\<close> rows, each filled with \<open>log(log_offset)\<close>, and has exactly
  \<open>num_frames\<close> time frames. If \<open>sl\<close> has \<open>num_frames\<close> rows or more, the returned tensor
  is the transpose of \<open>sl\<close> itself, neither truncated nor padded.
\<close>

theorem C5_feature_right_padding:
  assumes "0 \<le> idx" and "idx < int (len self)"
    and "feature_files fs (basename (datamapping self ! nat idx)) = Some ft"
    and "get_sample fs self idx = Inr (s, self')"
    and "sl = feature_slice (zero_value (config self)) (datamapping self ! nat idx) ft"
  shows "(int (shape0 sl) < num_frames self \<longrightarrow>
            spec s = tensor_T (Tensor (shape1 sl)
              (rows sl @ replicate (nat (num_frames self - int (shape0 sl)))
                 (replicate (shape1 sl) (ln (log_offset (config self)))))) \<and>
            int (shape1 (spec s)) = num_frames self) \<and>
         (num_frames self \<le> int (shape0 sl) \<longrightarrow>
            spec s = tensor_T sl \<and> shape1 (spec s) = shape0 sl)"
proof -
  from assms(4) have sp: "spec s = tensor_T (pad_feature (num_frames self) (zero_value (config self)) sl)"
    using assms(3,5) by (auto simp: get_sample_valid_iff [OF assms(1,2)])
  show ?thesis
  proof (intro conjI impI)
    assume short: "int (shape0 sl) < num_frames self"
    show "spec s = tensor_T (Tensor (shape1 sl)
              (rows sl @ replicate (nat (num_frames self - int (shape0 sl)))
                 (replicate (shape1 sl) (ln (log_offset (config self))))))"
      by (simp add: sp pad_feature_short [OF short] zero_value_def)
    show "int (shape1 (spec s)) = num_frames self"
      by (simp add: sp shape1_tensor_T shape0_pad_feature [OF short])
  next
    assume long: "num_frames self \<le> int (shape0 sl)"
    show "spec s = tensor_T sl" "shape1 (spec s) = shape0 sl"
      by (simp_all add: sp pad_feature_long [OF long] shape1_tensor_T)
  qed
qed

theorem C5_feature_right_padding_witness:
  "\<exists>s self'. get_sample ex_files (ex_dataset 128) 0 = Inr (s, self') \<and>
     spec s = tensor_T (Tensor 1 ((replicate 3 [0] @ [[1], [2]]) @ replicate 123 [ln 1])) \<and>
     int (shape1 (spec s)) = 128"
proof -
  have short: "int (shape0 (Tensor 1 (replicate 3 [0] @ [[1], [2::real]]))) < num_frames (ex_dataset 128)"
    by (simp add: shape0_def ex_dataset_fields)
  have len: "(0::int) \<le> 0" "0 < int (len (ex_dataset 128))"
    by (simp_all add: ex_dataset_fields)
  have ft: "feature_files ex_files (basename (datamapping (ex_dataset 128) ! nat 0)) = Some ex_feature"
    by (simp add: ex_dataset_fields ex_entries ex_item_fields ex_files_a)
  have sl: "Tensor 1 (replicate 3 [0] @ [[1], [2]]) =
    feature_slice (zero_value (config (ex_dataset 128))) (datamapping (ex_dataset 128) ! nat 0) ex_feature"
    by (simp add: ex_dataset_fields ex_entries ex_slice_neg)
  have cfg: "log_offset (config (ex_dataset 128)) = 1"
    by (simp add: ex_dataset_def)
  from C5_feature_right_padding [OF len ft ex_first_call sl] short
  have "spec ex_sample_0 =
      tensor_T (Tensor 1 ((replicate 3 [0] @ [[1], [2]]) @ replicate 123 [ln 1])) \<and>
    int (shape1 (spec ex_sample_0)) = 128"
    by (simp add: shape0_def ex_dataset_fields cfg shape1_tensor_T)
  with ex_first_call show ?thesis by blast
qed

lemma shape0_tensor_T: "shape0 (tensor_T t) = shape1 t"
  by (simp add: tensor_T_def shape0_def)

lemma pad_feature_rows:
  "pad_feature nf z t =
     Tensor (shape1 t) (rows t @ replicate (nat (nf - int (shape0 t))) (replicate (shape1 t) z))"
  by (cases t) (simp add: pad_feature_def cat0_def full_def shape0_def)

lemma feature_slice_rows:
  "feature_slice z m ft =
     Tensor (shape1 ft)
       (py_slice (replicate (nat (- onset_frame (feature m))) (replicate (shape1 ft) z) @ rows ft)
          (onset_frame (feature (snd (correct_onset z m ft))))
          (offset_frame (feature (snd (correct_onset z m ft)))))"
  by (simp add: feature_slice_def correct_onset_def slice0_def cat0_def full_def Let_def)

lemma length_py_slice: "length (py_slice xs a b) \<le> length xs"
  by (simp add: py_slice_def Let_def)

section \<open>Spans never raise\<close>

text \<open>
  Claim C6. For a valid index, whatever the span values are, \<^verbatim>\<open>__getitem__\<close> raises only
  when a file of the entry's recording is missing (\<^verbatim>\<open>FileNotFoundError\<close>); otherwise it
  returns a sample that is determined by prepending, clamped slicing and padding. With
  \<open>arr\<close> the feature array preceded by \<open>-onset_frame\<close> silence rows when \<open>onset_frame\<close> is
  negative, and \<open>m'\<close> the catalogue entry as the call leaves it (its \<open>onset_frame\<close> is
  \<open>max 0\<close> of the given one, and \<open>m'\<close> is the given entry when that was not negative), the
  slice \<open>sl\<close> is Python's clamped
  \<open>arr[onset_frame m' : offset_frame m']\<close>, never longer than \<open>arr\<close>; the feature tensor is
  the transpose of \<open>sl\<close> followed by \<open>max 0 (num_frames - len sl)\<close> silence rows, it is
  rectangular, has the source's number of bins and \<open>max num_frames (len sl)\<close> time frames,
  and every label tensor has at least \<open>num_frames\<close> rows.
\<close>

theorem C6_spans_never_raise:
  assumes "0 \<le> idx" and "idx < int (len self)"
    and "m = datamapping self ! nat idx"
    and "z = ln (log_offset (config self))"
  shows "if feature_files fs (basename m) \<noteq> None \<and>
            list_all (\<lambda>l. label_files fs (basename m) l \<noteq> None) LABELS
         then \<exists>ft s self' m' arr sl.
                feature_files fs (basename m) = Some ft \<and>
                get_sample fs self idx = Inr (s, self') \<and>
                m' = datamapping self' ! nat idx \<and>
                onset_frame (feature m') = max 0 (onset_frame (feature m)) \<and>
                (0 \<le> onset_frame (feature m) \<longrightarrow> m' = m) \<and>
                arr = replicate (nat (- onset_frame (feature m))) (replicate (shape1 ft) z) @ rows ft \<and>
                sl = py_slice arr (onset_frame (feature m')) (offset_frame (feature m')) \<and>
                length sl \<le> length arr \<and>
                spec s = tensor_T (Tensor (shape1 ft)
                  (sl @ replicate (nat (num_frames self - int (length sl))) (replicate (shape1 ft) z))) \<and>
                rectangular (spec s) \<and>
                shape0 (spec s) = shape1 ft \<and>
                int (shape1 (spec s)) = max (num_frames self) (int (length sl)) \<and>
                num_frames self \<le> int (lshape0 (onset s)) \<and>
                num_frames self \<le> int (lshape0 (offset s)) \<and>
                num_frames self \<le> int (shape0 (mpe s)) \<and>
                num_frames self \<le> int (shape0 (velocity s))
         else get_sample fs self idx = Inl FileNotFoundError"
proof (cases "feature_files fs (basename m) \<noteq> None \<and>
    list_all (\<lambda>l. label_files fs (basename m) l \<noteq> None) LABELS")
  case True
  then obtain ft t1 t2 t3 t4 where ft: "feature_files fs (basename m) = Some ft"
    and t: "label_files fs (basename m) ''onset'' = Some t1"
    "label_files fs (basename m) ''offset'' = Some t2" "label_files fs (basename m) ''mpe'' = Some t3"
    "label_files fs (basename m) ''velocity'' = Some t4"
    by (auto simp: LABELS_def)
  let ?nf = "num_frames self"
  let ?m' = "snd (correct_onset z m ft)"
  let ?arr = "replicate (nat (- onset_frame (feature m))) (replicate (shape1 ft) z) @ rows ft"
  let ?sl = "py_slice ?arr (onset_frame (feature ?m')) (offset_frame (feature ?m'))"
  let ?s = "\<lparr>spec = tensor_T (pad_feature ?nf z (feature_slice z m ft)),
             onset = pad_label ?nf t1, offset = pad_label ?nf t2,
             mpe = to_float (pad_label ?nf t3), velocity = to_long (pad_label ?nf t4)\<rparr>"
  let ?self' = "self\<lparr>datamapping := (datamapping self)[nat idx := ?m']\<rparr>"
  have z: "zero_value (config self) = z"
    by (simp add: zero_value_def assms(4))
  have r: "get_sample fs self idx = Inr (?s, ?self')"
    unfolding get_sample_valid_iff [OF assms(1,2)] z using ft t by (auto simp: assms(3))
  have k: "nat idx < length (datamapping self)"
    using assms(1,2) by (simp add: len_def)
  have m': "?m' = datamapping ?self' ! nat idx"
    using k by simp
  have sl: "feature_slice z m ft = Tensor (shape1 ft) ?sl"
    by (rule feature_slice_rows)
  have sp: "spec ?s = tensor_T (Tensor (shape1 ft)
      (?sl @ replicate (nat (?nf - int (length ?sl))) (replicate (shape1 ft) z)))"
    by (simp add: sl pad_feature_rows shape0_def)
  have f: "shape0 (to_float u) = lshape0 u" and g: "shape0 (to_long u) = lshape0 u" for u
    by (cases u; simp add: shape0_def tensor.map_sel)+
  have lab: "?nf \<le> int (lshape0 (onset ?s))" "?nf \<le> int (lshape0 (offset ?s))"
    "?nf \<le> int (shape0 (mpe ?s))" "?nf \<le> int (shape0 (velocity ?s))"
    by (simp_all add: f g lshape0_pad_label)
  have dim0: "shape0 (spec ?s) = shape1 ft"
    unfolding sp by (simp add: shape0_tensor_T)
  have dim1: "int (shape1 (spec ?s)) = max ?nf (int (length ?sl))"
    unfolding sp by (simp add: shape1_tensor_T shape0_def)
  have rect: "rectangular (spec ?s)"
    by (simp add: rectangular_tensor_T)
  have on: "onset_frame (feature ?m') = max 0 (onset_frame (feature m))"
    by (simp add: correct_onset_entry)
  have keep: "0 \<le> onset_frame (feature m) \<longrightarrow> ?m' = m"
    by (simp add: correct_onset_nonneg)
  have "\<exists>ft s self' m' arr sl.
                feature_files fs (basename m) = Some ft \<and>
                get_sample fs self idx = Inr (s, self') \<and>
                m' = datamapping self' ! nat idx \<and>
                onset_frame (feature m') = max 0 (onset_frame (feature m)) \<and>
                (0 \<le> onset_frame (feature m) \<longrightarrow> m' = m) \<and>
                arr = replicate (nat (- onset_frame (feature m))) (replicate (shape1 ft) z) @ rows ft \<and>
                sl = py_slice arr (onset_frame (feature m')) (offset_frame (feature m')) \<and>
                length sl \<le> length arr \<and>
                spec s = tensor_T (Tensor (shape1 ft)
                  (sl @ replicate (nat (num_frames self - int (length sl))) (replicate (shape1 ft) z))) \<and>
                rectangular (spec s) \<and>
                shape0 (spec s) = shape1 ft \<and>
                int (shape1 (spec s)) = max (num_frames self) (int (length sl)) \<and>
                num_frames self \<le> int (lshape0 (onset s)) \<and>
                num_frames self \<le> int (lshape0 (offset s)) \<and>
                num_frames self \<le> int (shape0 (mpe s)) \<and>
                num_frames self \<le> int (shape0 (velocity s))"
    apply (rule exI [of _ ft], rule exI [of _ ?s], rule exI [of _ ?self'], rule exI [of _ ?m'],
        rule exI [of _ ?arr], rule exI [of _ ?sl])
    apply (intro conjI)
    apply (rule ft, rule r, rule m', rule on, rule keep, rule refl, rule refl, rule length_py_slice, rule sp,
        rule rect, rule dim0, rule dim1, rule lab(1), rule lab(2), rule lab(3), rule lab(4))
    done
  with True show ?thesis by simp
next
  case False
  have k: "list_index (length (datamapping self)) idx = Some (nat idx)"
    using assms(1,2) by (simp add: list_index_valid len_def)
  from False have "get_sample fs self idx = Inl FileNotFoundError"
    unfolding get_sample_def k assms(3)
    by (auto simp: LABELS_def torch_load_def split: option.splits)
  with False show ?thesis by simp
qed

theorem C6_spans_never_raise_witness:
  "\<exists>s self'. get_sample ex_files (ex_dataset 128) 0 = Inr (s, self') \<and>
     onset_frame (feature (datamapping self' ! 0)) = 0 \<and>
     shape0 (spec s) = 1 \<and> shape1 (spec s) = 128 \<and> 128 \<le> int (lshape0 (onset s))"
proof -
  have len: "(0::int) \<le> 0" "0 < int (len (ex_dataset 128))"
    by (simp_all add: ex_dataset_fields)
  have m: "ex_item ''a'' (- 3) 5 0 2 = datamapping (ex_dataset 128) ! nat 0"
    by (simp add: ex_dataset_fields ex_entries)
  have z: "(0::real) = ln (log_offset (config (ex_dataset 128)))"
    by (simp add: ex_dataset_def)
  have present: "feature_files ex_files (basename (ex_item ''a'' (- 3) 5 0 2)) \<noteq> None \<and>
      list_all (\<lambda>l. label_files ex_files (basename (ex_item ''a'' (- 3) 5 0 2)) l \<noteq> None) LABELS"
    by (simp add: ex_item_fields ex_files_a LABELS_def)
  note c = C6_spans_never_raise [OF len m z, of ex_files, unfolded if_P [OF present]]
  from c obtain ft s self' m' arr sl where
    h: "feature_files ex_files (basename (ex_item ''a'' (- 3) 5 0 2)) = Some ft \<and>
      get_sample ex_files (ex_dataset 128) 0 = Inr (s, self') \<and>
      m' = datamapping self' ! nat 0 \<and>
      onset_frame (feature m') = max 0 (onset_frame (feature (ex_item ''a'' (- 3) 5 0 2))) \<and>
      (0 \<le> onset_frame (feature (ex_item ''a'' (- 3) 5 0 2)) \<longrightarrow>
         m' = ex_item ''a'' (- 3) 5 0 2) \<and>
      arr = replicate (nat (- onset_frame (feature (ex_item ''a'' (- 3) 5 0 2))))
        (replicate (shape1 ft) 0) @ rows ft \<and>
      sl = py_slice arr (onset_frame (feature m')) (offset_frame (feature m')) \<and>
      length sl \<le> length arr \<and>
      spec s = tensor_T (Tensor (shape1 ft)
        (sl @ replicate (nat (num_frames (ex_dataset 128) - int (length sl)))
           (replicate (shape1 ft) 0))) \<and>
      rectangular (spec s) \<and>
      shape0 (spec s) = shape1 ft \<and>
      int (shape1 (spec s)) = max (num_frames (ex_dataset 128)) (int (length sl)) \<and>
      num_frames (ex_dataset 128) \<le> int (lshape0 (onset s)) \<and>
      num_frames (ex_dataset 128) \<le> int (lshape0 (offset s)) \<and>
      num_frames (ex_dataset 128) \<le> int (shape0 (mpe s)) \<and>
      num_frames (ex_dataset 128) \<le> int (shape0 (velocity s))"
    by (elim exE) (rule that)
  from h have ft: "feature_files ex_files (basename (ex_item ''a'' (- 3) 5 0 2)) = Some ft"
    by (elim conjE)
  from h have r: "get_sample ex_files (ex_dataset 128) 0 = Inr (s, self')"
    by (elim conjE)
  from h have m': "m' = datamapping self' ! nat 0"
    by (elim conjE)
  from h have on: "onset_frame (feature m') = max 0 (onset_frame (feature (ex_item ''a'' (- 3) 5 0 2)))"
    by (elim conjE)
  from h have arr: "arr = replicate (nat (- onset_frame (feature (ex_item ''a'' (- 3) 5 0 2))))
        (replicate (shape1 ft) 0) @ rows ft"
    by (elim conjE)
  from h have le: "length sl \<le> length arr"
    by (elim conjE)
  from h have d0: "shape0 (spec s) = shape1 ft"
    by (elim conjE)
  from h have d1: "int (shape1 (spec s)) = max (num_frames (ex_dataset 128)) (int (length sl))"
    by (elim conjE)
  from h have lab: "num_frames (ex_dataset 128) \<le> int (lshape0 (onset s))"
    by (elim conjE)
  from ft have f: "ft = ex_feature"
    by (simp add: ex_item_fields ex_files_a)
  have "length arr = 11"
    by (simp add: arr f ex_feature_def ex_item_fields)
  with le d1 have "shape1 (spec s) = 128"
    by (simp add: ex_dataset_fields)
  moreover have "shape0 (spec s) = 1"
    by (simp add: d0 f ex_feature_def)
  moreover have "onset_frame (feature (datamapping self' ! 0)) = 0"
    using on by (simp add: m' ex_item_fields)
  moreover have "128 \<le> int (lshape0 (onset s))"
    using lab by (simp add: ex_dataset_fields)
  ultimately show ?thesis
    using r by blast
qed

section \<open>Stacking\<close>

lemma stack_Inr_iff:
  "stack ts = Inr b \<longleftrightarrow>
     ts \<noteq> [] \<and> (\<forall>t\<in>set ts. shape t = shape (hd ts)) \<and> b = Batch (shape (hd ts)) ts"
  by (cases ts) (auto simp: stack_def list_all_iff)

lemma stack_Inl_iff:
  "stack ts = Inl e \<longleftrightarrow>
     e = RuntimeError \<and> (ts = [] \<or> \<not> (\<forall>t\<in>set ts. shape t = shape (hd ts)))"
  by (cases ts) (auto simp: stack_def list_all_iff)

lemma shape_to_float: "shape (to_float t) = lshape t"
  by (cases t) (simp_all add: shape_def lshape_def shape0_def tensor.map_sel)

lemma shape_to_long: "shape (to_long t) = lshape t"
  by (cases t) (simp_all add: shape_def lshape_def shape0_def tensor.map_sel)

lemma all_IntT_items: "list_all is_IntT ts \<Longrightarrow> map IntT (map to_long ts) = ts"
proof (induction ts)
  case Nil
  then show ?case by simp
next
  case (Cons t ts)
  then show ?case by (cases t) simp_all
qed

lemma to_float_FloatT: "map to_float (map FloatT (map to_float ts)) = map to_float ts"
  by simp

lemma lstack_Inr_iff:
  "(\<exists>b. lstack ts = Inr b) \<longleftrightarrow> ts \<noteq> [] \<and> (\<forall>t\<in>set ts. lshape t = lshape (hd ts))"
  by (cases ts)
    (auto simp: lstack_def stack_Inr_iff stack_Inl_iff shape_to_float shape_to_long
      split: sum.splits)

lemma lstack_Inr:
  assumes "lstack ts = Inr b"
  shows "lbatch_shape b = lshape (hd ts) \<and> lbatch_size b = length ts \<and>
         map to_float (lbatch_items b) = map to_float ts"
proof (cases "list_all is_IntT ts")
  case True
  with assms have b: "b = IntB (Batch (shape (hd (map to_long ts))) (map to_long ts))" and ne: "ts \<noteq> []"
    by (auto simp: lstack_def stack_Inr_iff split: sum.splits)
  from ne have "hd (map to_long ts) = to_long (hd ts)"
    by (simp add: hd_map)
  moreover have "lbatch_items b = ts"
    using all_IntT_items [OF True] by (simp add: b)
  ultimately show ?thesis
    by (simp add: b shape_to_long)
next
  case False
  with assms have b: "b = FloatB (Batch (shape (hd (map to_float ts))) (map to_float ts))" and ne: "ts \<noteq> []"
    by (auto simp: lstack_def stack_Inr_iff split: sum.splits)
  from ne have "hd (map to_float ts) = to_float (hd ts)"
    by (simp add: hd_map)
  then show ?thesis
    by (simp add: b shape_to_float comp_def)
qed

lemma lstack_Inl: "lstack ts = Inl e \<Longrightarrow> e = RuntimeError"
  by (auto simp: lstack_def stack_Inl_iff split: sum.splits if_splits)

lemma stack_Inl: "stack ts = Inl e \<Longrightarrow> e = RuntimeError"
  by (simp add: stack_Inl_iff)

lemma collate_fn_error:
  "batch \<noteq> [] \<Longrightarrow> collate_fn batch = Inl e \<Longrightarrow> e = RuntimeError"
  unfolding collate_fn_def
  by (auto split: sum.splits dest: stack_Inl lstack_Inl)

lemma collate_fn_Inr_iff:
  "(\<exists>out. collate_fn batch = Inr out) \<longleftrightarrow>
     batch \<noteq> [] \<and> (\<forall>x\<in>set batch. same_shapes x (hd batch))"
proof (cases "batch = []")
  case True
  then show ?thesis by (simp add: collate_fn_def)
next
  case False
  have l: "(\<exists>b. lstack (map f batch) = Inr b) \<longleftrightarrow> (\<forall>x\<in>set batch. lshape (f x) = lshape (f (hd batch)))"
    for f
    using False by (simp add: lstack_Inr_iff hd_map)
  have s: "(\<exists>b. stack (map f batch) = Inr b) \<longleftrightarrow> (\<forall>x\<in>set batch. shape (f x) = shape (f (hd batch)))"
    for f :: "sample \<Rightarrow> 'a tensor"
    using False by (simp add: stack_Inr_iff hd_map)
  have "(\<exists>out. collate_fn batch = Inr out) \<longleftrightarrow>
      (\<exists>b. stack (map spec batch) = Inr b) \<and> (\<exists>b. lstack (map onset batch) = Inr b) \<and>
      (\<exists>b. lstack (map offset batch) = Inr b) \<and> (\<exists>b. stack (map mpe batch) = Inr b) \<and>
      (\<exists>b. stack (map velocity batch) = Inr b)"
    using False by (auto simp: collate_fn_def split: sum.splits)
  also have "\<dots> \<longleftrightarrow> (\<forall>x\<in>set batch. same_shapes x (hd batch))"
    unfolding l s same_shapes_def by blast
  finally show ?thesis using False by simp
qed

lemma same_shapes_hd:
  assumes "batch \<noteq> []"
  shows "(\<forall>x\<in>set batch. same_shapes x (hd batch)) \<longleftrightarrow>
     (\<forall>x\<in>set batch. \<forall>y\<in>set batch. same_shapes x y)"
proof
  assume h: "\<forall>x\<in>set batch. same_shapes x (hd batch)"
  show "\<forall>x\<in>set batch. \<forall>y\<in>set batch. same_shapes x y"
  proof (intro ballI)
    fix x y assume "x \<in> set batch" "y \<in> set batch"
    with h have "same_shapes x (hd batch)" "same_shapes y (hd batch)" by blast+
    then show "same_shapes x y" by (simp add: same_shapes_def)
  qed
next
  assume "\<forall>x\<in>set batch. \<forall>y\<in>set batch. same_shapes x y"
  with assms show "\<forall>x\<in>set batch. same_shapes x (hd batch)"
    by (meson hd_in_set)
qed

lemma collate_fn_Inr:
  assumes "collate_fn batch = Inr out"
  shows "stack (map spec batch) = Inr (specs out)" "lstack (map onset batch) = Inr (onsets out)"
    "lstack (map offset batch) = Inr (offsets out)" "stack (map mpe batch) = Inr (mpes out)"
    "stack (map velocity batch) = Inr (velocities out)"
  using assms unfolding collate_fn_def
  by (auto split: sum.splits if_splits)

lemma stack_InrD:
  "stack ts = Inr b \<Longrightarrow> items b = ts \<and> item_shape b = shape (hd ts)"
  by (cases ts) (auto simp: stack_def split: if_splits)

lemma collate_fn_Nil: "collate_fn [] = Inl ValueError"
  by (simp add: collate_fn_def)

section \<open>Collation of uniformly shaped samples\<close>

text \<open>
  Claim C7. On a sequence of \<open>N \<ge> 1\<close> samples, \<^verbatim>\<open>collate_fn\<close> returns five stacked
  tensors when all samples agree on the shape at every position: each has leading
  dimension \<open>N\<close>, the per-sample shape as its remaining dimensions, and the samples'
  tensors in their order (label values possibly promoted to floating point). When two
  samples disagree on the shape at some position it raises the \<^verbatim>\<open>RuntimeError\<close> of
  \<^verbatim>\<open>torch.stack\<close>; nothing is truncated.
\<close>

theorem C7_collate:
  assumes "batch \<noteq> []"
  shows "((\<forall>x\<in>set batch. \<forall>y\<in>set batch. same_shapes x y) \<longrightarrow>
           (\<exists>out. collate_fn batch = Inr out \<and>
              items (specs out) = map spec batch \<and>
              item_shape (specs out) = shape (spec (hd batch)) \<and>
              lbatch_size (onsets out) = length batch \<and>
              lbatch_shape (onsets out) = lshape (onset (hd batch)) \<and>
              map to_float (lbatch_items (onsets out)) = map to_float (map onset batch) \<and>
              lbatch_size (offsets out) = length batch \<and>
              lbatch_shape (offsets out) = lshape (offset (hd batch)) \<and>
              map to_float (lbatch_items (offsets out)) = map to_float (map offset batch) \<and>
              items (mpes out) = map mpe batch \<and>
              item_shape (mpes out) = shape (mpe (hd batch)) \<and>
              items (velocities out) = map velocity batch \<and>
              item_shape (velocities out) = shape (velocity (hd batch)))) \<and>
         ((\<exists>x\<in>set batch. \<exists>y\<in>set batch. \<not> same_shapes x y) \<longrightarrow>
            collate_fn batch = Inl RuntimeError)"
proof (intro conjI impI)
  assume "\<forall>x\<in>set batch. \<forall>y\<in>set batch. same_shapes x y"
  then have "\<exists>out. collate_fn batch = Inr out"
    by (simp add: collate_fn_Inr_iff [of batch] same_shapes_hd [OF assms] assms)
  then obtain out where out: "collate_fn batch = Inr out" ..
  note c = collate_fn_Inr [OF out]
  note h = hd_map [OF assms]
  have "items (specs out) = map spec batch" "item_shape (specs out) = shape (spec (hd batch))"
    using stack_InrD [OF c(1)] by (simp_all add: h)
  moreover have "items (mpes out) = map mpe batch" "item_shape (mpes out) = shape (mpe (hd batch))"
    using stack_InrD [OF c(4)] by (simp_all add: h)
  moreover have "items (velocities out) = map velocity batch"
    "item_shape (velocities out) = shape (velocity (hd batch))"
    using stack_InrD [OF c(5)] by (simp_all add: h)
  moreover have "lbatch_size (onsets out) = length batch"
    "lbatch_shape (onsets out) = lshape (onset (hd batch))"
    "map to_float (lbatch_items (onsets out)) = map to_float (map onset batch)"
    using lstack_Inr [OF c(2)] by (simp_all add: h)
  moreover have "lbatch_size (offsets out) = length batch"
    "lbatch_shape (offsets out) = lshape (offset (hd batch))"
    "map to_float (lbatch_items (offsets out)) = map to_float (map offset batch)"
    using lstack_Inr [OF c(3)] by (simp_all add: h)
  ultimately show "\<exists>out. collate_fn batch = Inr out \<and>
              items (specs out) = map spec batch \<and>
              item_shape (specs out) = shape (spec (hd batch)) \<and>
              lbatch_size (onsets out) = length batch \<and>
              lbatch_shape (onsets out) = lshape (onset (hd batch)) \<and>
              map to_float (lbatch_items (onsets out)) = map to_float (map onset batch) \<and>
              lbatch_size (offsets out) = length batch \<and>
              lbatch_shape (offsets out) = lshape (offset (hd batch)) \<and>
              map to_float (lbatch_items (offsets out)) = map to_float (map offset batch) \<and>
              items (mpes out) = map mpe batch \<and>
              item_shape (mpes out) = shape (mpe (hd batch)) \<and>
              items (velocities out) = map velocity batch \<and>
              item_shape (velocities out) = shape (velocity (hd batch))"
    using out by blast
next
  assume "\<exists>x\<in>set batch. \<exists>y\<in>set batch. \<not> same_shapes x y"
  then have "\<not> (\<exists>out. collate_fn batch = Inr out)"
    by (simp add: collate_fn_Inr_iff [of batch] same_shapes_hd [OF assms] assms)
  then obtain e where "collate_fn batch = Inl e"
    by (cases "collate_fn batch") auto
  with assms show "collate_fn batch = Inl RuntimeError"
    using collate_fn_error [of batch e] by simp
qed

theorem C7_collate_witness:
  "(\<exists>out. collate_fn [ex_sample_0, ex_sample_0] = Inr out \<and>
      items (specs out) = [spec ex_sample_0, spec ex_sample_0] \<and>
      item_shape (specs out) = (1, 128) \<and> lbatch_size (onsets out) = 2) \<and>
   collate_fn [ex_sample_0, ex_sample_0\<lparr>spec := Tensor 130 [replicate 130 0]\<rparr>] = Inl RuntimeError"
proof -
  have sh: "shape (spec ex_sample_0) = (1, 128)"
    by (simp add: ex_sample_0_def shape_def shape0_def)
  have u: "\<forall>x\<in>set [ex_sample_0, ex_sample_0]. \<forall>y\<in>set [ex_sample_0, ex_sample_0]. same_shapes x y"
    by (simp add: same_shapes_def)
  have "\<not> same_shapes ex_sample_0 (ex_sample_0\<lparr>spec := Tensor 130 [replicate 130 0]\<rparr>)"
    by (simp add: same_shapes_def sh) (simp add: shape_def)
  then have n: "\<exists>x\<in>set [ex_sample_0, ex_sample_0\<lparr>spec := Tensor 130 [replicate 130 0]\<rparr>].
      \<exists>y\<in>set [ex_sample_0, ex_sample_0\<lparr>spec := Tensor 130 [replicate 130 0]\<rparr>]. \<not> same_shapes x y"
    by auto
  have a: "\<exists>out. collate_fn [ex_sample_0, ex_sample_0] = Inr out \<and>
      items (specs out) = [spec ex_sample_0, spec ex_sample_0] \<and>
      item_shape (specs out) = (1, 128) \<and> lbatch_size (onsets out) = 2"
    using C7_collate [of "[ex_sample_0, ex_sample_0]"] u by (auto simp: sh)
  have b: "collate_fn [ex_sample_0, ex_sample_0\<lparr>spec := Tensor 130 [replicate 130 0]\<rparr>] =
      Inl RuntimeError"
    using C7_collate [of "[ex_sample_0, ex_sample_0\<lparr>spec := Tensor 130 [replicate 130 0]\<rparr>]"] n
    by blast
  from a b show ?thesis by blast
qed

section \<open>The construction loop\<close>

lemma feature_loads_append: "feature_loads (xs @ ys) = feature_loads xs @ feature_loads ys"
  by (induction xs rule: feature_loads.induct) simp_all

lemma label_loads_append: "label_loads (xs @ ys) = label_loads xs @ label_loads ys"
  by (induction xs rule: label_loads.induct) simp_all

lemma feature_loads_labels: "feature_loads (map (LabelLoad b) ls) = []"
  by (induction ls) simp_all

lemma label_loads_labels: "label_loads (map (LabelLoad b) ls) = map (Pair b) ls"
  by (induction ls) simp_all

lemma set_feature_loads: "b \<in> set (feature_loads tr) \<longleftrightarrow> FeatureLoad b \<in> set tr"
  by (induction tr rule: feature_loads.induct) auto

lemma set_label_loads: "(b, l) \<in> set (label_loads tr) \<longleftrightarrow> LabelLoad b l \<in> set tr"
  by (induction tr rule: label_loads.induct) auto

lemma distinct_feature_loads: "distinct tr \<Longrightarrow> distinct (feature_loads tr)"
  by (induction tr rule: feature_loads.induct) (auto simp: set_feature_loads)

lemma distinct_label_loads: "distinct tr \<Longrightarrow> distinct (label_loads tr)"
  by (induction tr rule: label_loads.induct) (auto simp: set_label_loads)

lemma load_labels_trace:
  "\<exists>n. snd (load_labels fs b ls) = map (LabelLoad b) (take n ls)"
proof (induction ls)
  case Nil
  then show ?case by simp
next
  case (Cons l ls)
  then obtain n where n: "snd (load_labels fs b ls) = map (LabelLoad b) (take n ls)" ..
  show ?case
  proof (cases "label_files fs b l")
    case None
    then have "snd (load_labels fs b (l # ls)) = map (LabelLoad b) (take 1 (l # ls))"
      by simp
    then show ?thesis ..
  next
    case (Some t)
    then have "snd (load_labels fs b (l # ls)) = map (LabelLoad b) (take (Suc n) (l # ls))"
      using n by (auto split: prod.splits sum.splits)
    then show ?thesis ..
  qed
qed

lemma load_labels_trace_Inr:
  "fst (load_labels fs b ls) = Inr d \<Longrightarrow> snd (load_labels fs b ls) = map (LabelLoad b) ls"
  by (induction ls arbitrary: d) (auto split: option.splits prod.splits sum.splits)

lemma distinct_LABELS: "distinct LABELS"
  by (simp add: LABELS_def)

lemma load_labels_trace_distinct:
  "distinct (snd (load_labels fs b LABELS)) \<and>
   (\<forall>x\<in>set (snd (load_labels fs b LABELS)). \<exists>l. x = LabelLoad b l)"
proof -
  obtain n where n: "snd (load_labels fs b LABELS) = map (LabelLoad b) (take n LABELS)"
    using load_labels_trace by blast
  have "distinct (take n LABELS)"
    using distinct_LABELS by (rule distinct_take)
  then have "distinct (map (LabelLoad b) (take n LABELS))"
    by (simp add: distinct_map inj_on_def)
  then show ?thesis
    unfolding n by auto
qed

lemma cache_loop_distinct:
  assumes "distinct tr"
    and "\<forall>b. FeatureLoad b \<in> set tr \<longrightarrow> features self b \<noteq> None"
    and "\<forall>b l. LabelLoad b l \<in> set tr \<longrightarrow> features self b \<noteq> None"
  shows "distinct (snd (cache_loop fs ms self tr))"
  using assms
proof (induction ms arbitrary: self tr)
  case Nil
  then show ?case by simp
next
  case (Cons m ms)
  let ?b = "basename m"
  show ?case
  proof (cases "features self ?b \<noteq> None")
    case True
    then show ?thesis using Cons by simp
  next
    case False
    then have new: "FeatureLoad ?b \<notin> set tr" "\<And>l. LabelLoad ?b l \<notin> set tr"
      using Cons.prems by auto
    note lt = load_labels_trace_distinct [of fs ?b]
    show ?thesis
    proof (cases "feature_files fs ?b")
      case None
      then show ?thesis
        using False Cons.prems(1) new by (simp add: torch_load_def)
    next
      case (Some t)
      obtain res trl where l: "load_labels fs ?b LABELS = (res, trl)"
        by (cases "load_labels fs ?b LABELS")
      from lt l have trl: "distinct trl" "\<forall>x\<in>set trl. \<exists>l. x = LabelLoad ?b l"
        by simp_all
      have d: "distinct (tr @ FeatureLoad ?b # trl)"
        using Cons.prems(1) new trl by auto
      show ?thesis
      proof (cases res)
        case (Inl e)
        then show ?thesis
          using False Some l d by (simp add: torch_load_def)
      next
        case (Inr dct)
        let ?self = "self\<lparr>features := (features self)(?b \<mapsto> t), labels := (labels self)(?b \<mapsto> dct)\<rparr>"
        have "distinct (snd (cache_loop fs ms ?self (tr @ FeatureLoad ?b # trl)))"
        proof (rule Cons.IH [OF d])
          show "\<forall>b. FeatureLoad b \<in> set (tr @ FeatureLoad ?b # trl) \<longrightarrow> features ?self b \<noteq> None"
            using Cons.prems(2) trl(2) by auto
          show "\<forall>b l. LabelLoad b l \<in> set (tr @ FeatureLoad ?b # trl) \<longrightarrow> features ?self b \<noteq> None"
            using Cons.prems(3) trl(2) by auto
        qed
        then show ?thesis
          using False Some l Inr by (simp add: torch_load_def Let_def)
      qed
    qed
  qed
qed

lemma cache_loop_skip:
  "features self (basename m) \<noteq> None \<Longrightarrow>
     cache_loop fs (m # ms) self tr = cache_loop fs ms self tr"
  by simp

lemma cache_loop_load:
  assumes "features self (basename m) = None"
    and "cache_loop fs (m # ms) self tr = (Inr self', tr')"
  shows "\<exists>t d. feature_files fs (basename m) = Some t \<and>
           fst (load_labels fs (basename m) LABELS) = Inr d \<and>
           cache_loop fs ms
             (self\<lparr>features := (features self)(basename m \<mapsto> t),
                   labels := (labels self)(basename m \<mapsto> d)\<rparr>)
             (tr @ FeatureLoad (basename m) # map (LabelLoad (basename m)) LABELS) = (Inr self', tr')"
proof -
  from assms obtain t where t: "feature_files fs (basename m) = Some t"
    by (cases "feature_files fs (basename m)") (auto simp: torch_load_def)
  obtain res trl where l: "load_labels fs (basename m) LABELS = (res, trl)"
    by (cases "load_labels fs (basename m) LABELS")
  from assms t l obtain d where d: "res = Inr d"
    by (cases res) (auto simp: torch_load_def)
  from l d have "trl = map (LabelLoad (basename m)) LABELS"
    using load_labels_trace_Inr [of fs "basename m" LABELS d] by simp
  with assms t l d show ?thesis
    by (simp add: torch_load_def Let_def)
qed

lemma cache_loop_fields:
  "cache_loop fs ms self tr = (Inr self', tr') \<Longrightarrow>
     datamapping self' = datamapping self \<and> config self' = config self \<and>
     num_frames self' = num_frames self"
proof (induction ms arbitrary: self tr)
  case Nil
  then show ?case by simp
next
  case (Cons m ms)
  show ?case
  proof (cases "features self (basename m) = None")
    case False
    with Cons show ?thesis by simp
  next
    case True
    from cache_loop_load [OF True Cons.prems] obtain t d where
      "cache_loop fs ms
         (self\<lparr>features := (features self)(basename m \<mapsto> t),
               labels := (labels self)(basename m \<mapsto> d)\<rparr>)
         (tr @ FeatureLoad (basename m) # map (LabelLoad (basename m)) LABELS) = (Inr self', tr')"
      by blast
    from Cons.IH [OF this] show ?thesis by simp
  qed
qed

lemma cache_loop_loads:
  "cache_loop fs ms self tr = (Inr self', tr') \<Longrightarrow>
     set (feature_loads tr') =
       set (feature_loads tr) \<union> {b \<in> basename ` set ms. features self b = None} \<and>
     set (label_loads tr') =
       set (label_loads tr) \<union> {b \<in> basename ` set ms. features self b = None} \<times> set LABELS"
proof (induction ms arbitrary: self tr)
  case Nil
  then show ?case by simp
next
  case (Cons m ms)
  show ?case
  proof (cases "features self (basename m) = None")
    case False
    with Cons.prems have "cache_loop fs ms self tr = (Inr self', tr')" by simp
    from Cons.IH [OF this] False show ?thesis by auto
  next
    case True
    from cache_loop_load [OF True Cons.prems] obtain t d where
      "cache_loop fs ms
         (self\<lparr>features := (features self)(basename m \<mapsto> t),
               labels := (labels self)(basename m \<mapsto> d)\<rparr>)
         (tr @ FeatureLoad (basename m) # map (LabelLoad (basename m)) LABELS) = (Inr self', tr')"
      by blast
    from Cons.IH [OF this] True show ?thesis
      by (auto simp: feature_loads_append label_loads_append feature_loads_labels
          label_loads_labels)
  qed
qed

lemma cache_loop_cache:
  assumes "cache_loop fs ms self tr = (Inr self', tr')"
    and "\<forall>b ft. features self b = Some ft \<longrightarrow>
           feature_files fs b = Some ft \<and>
           (\<exists>d. labels self b = Some d \<and> fst (load_labels fs b LABELS) = Inr d)"
  shows "(\<forall>b ft. features self' b = Some ft \<longrightarrow>
           feature_files fs b = Some ft \<and>
           (\<exists>d. labels self' b = Some d \<and> fst (load_labels fs b LABELS) = Inr d)) \<and>
         (\<forall>m\<in>set ms. features self' (basename m) \<noteq> None) \<and>
         (\<forall>b. features self b \<noteq> None \<longrightarrow> features self' b \<noteq> None)"
  using assms
proof (induction ms arbitrary: self tr)
  case Nil
  then show ?case by simp
next
  case (Cons m ms)
  show ?case
  proof (cases "features self (basename m) = None")
    case False
    with Cons.prems have "cache_loop fs ms self tr = (Inr self', tr')" by simp
    from Cons.IH [OF this Cons.prems(2)] False show ?thesis by auto
  next
    case True
    from cache_loop_load [OF True Cons.prems(1)] obtain t d where
      t: "feature_files fs (basename m) = Some t"
      and d: "fst (load_labels fs (basename m) LABELS) = Inr d"
      and c: "cache_loop fs ms
         (self\<lparr>features := (features self)(basename m \<mapsto> t),
               labels := (labels self)(basename m \<mapsto> d)\<rparr>)
         (tr @ FeatureLoad (basename m) # map (LabelLoad (basename m)) LABELS) = (Inr self', tr')"
      by blast
    let ?self = "self\<lparr>features := (features self)(basename m \<mapsto> t),
               labels := (labels self)(basename m \<mapsto> d)\<rparr>"
    have inv: "\<forall>b ft. features ?self b = Some ft \<longrightarrow>
           feature_files fs b = Some ft \<and>
           (\<exists>d. labels ?self b = Some d \<and> fst (load_labels fs b LABELS) = Inr d)"
      using Cons.prems(2) t d True by auto
    from Cons.IH [OF c inv] show ?thesis by auto
  qed
qed

lemma ex_load_labels:
  "load_labels ex_files b LABELS =
     (if b = ''a'' \<or> b = ''b''
      then (Inr (map (\<lambda>l. (l, ex_label)) LABELS), map (LabelLoad b) LABELS)
      else (Inl FileNotFoundError, [LabelLoad b ''onset'']))"
  by (simp add: ex_files_def LABELS_def)

lemma ex_files_json:
  "mapping_json ex_files = Some ex_catalogue" "config_json ex_files = Some \<lparr>log_offset = 1\<rparr>"
  by (simp_all add: ex_files_def)

lemma ex_files_b: "feature_files ex_files ''b'' = Some ex_feature"
  by (simp add: ex_files_def)

lemma ex_init:
  "\<exists>self. fst (init ex_files 128) = Inr self \<and> datamapping self = ex_catalogue"
proof -
  have "\<exists>self. fst (init ex_files 128) = Inr self"
    unfolding init_def ex_files_json
    by (simp add: ex_catalogue_def ex_item_def torch_load_def ex_load_labels ex_files_a ex_files_b)
  then obtain self where s: "fst (init ex_files 128) = Inr self" ..
  then have "cache_loop ex_files ex_catalogue
      \<lparr>datamapping = ex_catalogue, config = \<lparr>log_offset = 1\<rparr>, num_frames = 128,
        features = Map.empty, labels = Map.empty\<rparr> [] = (Inr self, snd (init ex_files 128))"
    by (simp add: init_def ex_files_json prod_eq_iff)
  from cache_loop_fields [OF this] have "datamapping self = ex_catalogue"
    by simp
  with s show ?thesis by blast
qed

lemma init_Inr:
  assumes "fst (init fs nf) = Inr self"
  shows "\<exists>dm cfg. mapping_json fs = Some dm \<and>
           cache_loop fs dm \<lparr>datamapping = dm, config = cfg, num_frames = nf,
             features = Map.empty, labels = Map.empty\<rparr> [] = (Inr self, snd (init fs nf))"
  using assms
  by (auto simp: init_def prod_eq_iff split: option.splits)

section \<open>Construction reads each file once\<close>

text \<open>
  Claim C8. During construction no artifact file is read twice: the trace of reads is
  distinct, also when construction fails. When construction succeeds, the feature files
  read are exactly those of the distinct basenames of the catalogue, one read each, and
  the label files read are exactly the four channels of each of these basenames, one read
  each; so the number of feature loads is the number of distinct recordings, whatever the
  number of catalogue entries.
\<close>

theorem C8_each_recording_loaded_once:
  "distinct (snd (init fs nf)) \<and>
   (\<forall>self. fst (init fs nf) = Inr self \<longrightarrow>
      set (feature_loads (snd (init fs nf))) = basename ` set (datamapping self) \<and>
      length (feature_loads (snd (init fs nf))) = card (basename ` set (datamapping self)) \<and>
      set (label_loads (snd (init fs nf))) = basename ` set (datamapping self) \<times> set LABELS \<and>
      length (label_loads (snd (init fs nf))) = 4 * card (basename ` set (datamapping self)))"
proof (intro conjI allI impI)
  show d: "distinct (snd (init fs nf))"
    by (auto simp: init_def cache_loop_distinct split: option.splits)
  fix self assume "fst (init fs nf) = Inr self"
  from init_Inr [OF this] obtain dm cfg where
    c: "cache_loop fs dm \<lparr>datamapping = dm, config = cfg, num_frames = nf,
             features = Map.empty, labels = Map.empty\<rparr> [] = (Inr self, snd (init fs nf))"
    by blast
  from cache_loop_fields [OF c] have dm: "datamapping self = dm" by simp
  from cache_loop_loads [OF c]
  show f: "set (feature_loads (snd (init fs nf))) = basename ` set (datamapping self)"
    and l: "set (label_loads (snd (init fs nf))) = basename ` set (datamapping self) \<times> set LABELS"
    by (simp_all add: dm)
  have "length (feature_loads (snd (init fs nf))) = card (set (feature_loads (snd (init fs nf))))"
    using distinct_feature_loads [OF d] by (simp add: distinct_card)
  then show "length (feature_loads (snd (init fs nf))) = card (basename ` set (datamapping self))"
    by (simp add: f)
  have "card (set LABELS) = 4"
    by (simp add: LABELS_def)
  moreover have "length (label_loads (snd (init fs nf))) = card (set (label_loads (snd (init fs nf))))"
    using distinct_label_loads [OF d] by (simp add: distinct_card)
  ultimately show "length (label_loads (snd (init fs nf))) = 4 * card (basename ` set (datamapping self))"
    by (simp add: l card_cartesian_product)
qed

theorem C8_each_recording_loaded_once_witness:
  "length ex_catalogue = 5 \<and> distinct (snd (init ex_files 128)) \<and>
   length (feature_loads (snd (init ex_files 128))) = 2 \<and>
   length (label_loads (snd (init ex_files 128))) = 8"
proof -
  from ex_init obtain self where
    s: "fst (init ex_files 128) = Inr self" and dm: "datamapping self = ex_catalogue"
    by blast
  have "basename ` set ex_catalogue = {''a'', ''b''}"
    by (auto simp: ex_catalogue_def ex_item_def)
  then have c: "card (basename ` set (datamapping self)) = 2"
    by (simp add: dm)
  from C8_each_recording_loaded_once [of ex_files 128] s c show ?thesis
    by (simp add: ex_entries)
qed

section \<open>The cache and the files\<close>

text \<open>
  Claim C9. After a successful construction, for every recording that the catalogue
  references the cached feature array is the array that \<^verbatim>\<open>torch.load\<close> reads from the
  file, and the cached label dictionary is the dictionary that the label-reading loop of
  \<^verbatim>\<open>__getitem__\<close> builds; hence resolving a sample through the cache
  (\<open>get_sample_cached\<close>) and through the re-read (\<open>get_sample\<close>) gives the same result, or
  the same \<^verbatim>\<open>IndexError\<close>, at every index. The files are those the construction read.
\<close>

theorem C9_cache_equals_reread:
  assumes "fst (init fs nf) = Inr self"
  shows "(\<forall>m\<in>set (datamapping self).
            (\<exists>ft. features self (basename m) = Some ft \<and>
                  feature_files fs (basename m) = Some ft) \<and>
            (\<exists>d. labels self (basename m) = Some d \<and>
                  fst (load_labels fs (basename m) LABELS) = Inr d)) \<and>
         (\<forall>idx. get_sample_cached self idx = get_sample fs self idx)"
proof -
  from init_Inr [OF assms] obtain dm cfg where
    c: "cache_loop fs dm \<lparr>datamapping = dm, config = cfg, num_frames = nf,
             features = Map.empty, labels = Map.empty\<rparr> [] = (Inr self, snd (init fs nf))"
    by blast
  from cache_loop_fields [OF c] have dm: "datamapping self = dm" by simp
  from cache_loop_cache [OF c] have
    inv: "\<And>b ft. features self b = Some ft \<Longrightarrow>
           feature_files fs b = Some ft \<and>
           (\<exists>d. labels self b = Some d \<and> fst (load_labels fs b LABELS) = Inr d)"
    and all: "\<And>m. m \<in> set dm \<Longrightarrow> features self (basename m) \<noteq> None"
    by auto
  have entry: "(\<exists>ft. features self (basename m) = Some ft \<and>
                  feature_files fs (basename m) = Some ft) \<and>
            (\<exists>d. labels self (basename m) = Some d \<and>
                  fst (load_labels fs (basename m) LABELS) = Inr d)"
    if "m \<in> set (datamapping self)" for m
  proof -
    from that all obtain ft where "features self (basename m) = Some ft"
      by (auto simp: dm)
    with inv [OF this] show ?thesis by blast
  qed
  have "get_sample_cached self idx = get_sample fs self idx" for idx
  proof (cases "list_index (length (datamapping self)) idx")
    case None
    then show ?thesis by (simp add: get_sample_cached_def get_sample_def)
  next
    case (Some k)
    then have "k < length (datamapping self)"
      by (auto simp: list_index_def Let_def split: if_splits)
    then have "datamapping self ! k \<in> set (datamapping self)"
      by simp
    from entry [OF this] obtain ft d where
      "features self (basename (datamapping self ! k)) = Some ft"
      "feature_files fs (basename (datamapping self ! k)) = Some ft"
      "labels self (basename (datamapping self ! k)) = Some d"
      "fst (load_labels fs (basename (datamapping self ! k)) LABELS) = Inr d"
      by blast
    with Some show ?thesis
      by (simp add: get_sample_cached_def get_sample_def torch_load_def)
  qed
  with entry show ?thesis by blast
qed

theorem C9_cache_equals_reread_witness:
  "\<exists>self. fst (init ex_files 128) = Inr self \<and>
     features self ''a'' = feature_files ex_files ''a'' \<and>
     get_sample_cached self 0 = get_sample ex_files self 0"
proof -
  from ex_init obtain self where
    s: "fst (init ex_files 128) = Inr self" and dm: "datamapping self = ex_catalogue"
    by blast
  have "ex_item ''a'' (- 3) 5 0 2 \<in> set (datamapping self)"
    by (simp add: dm ex_catalogue_def)
  with C9_cache_equals_reread [OF s] have
    "features self ''a'' = feature_files ex_files ''a''"
    "get_sample_cached self 0 = get_sample ex_files self 0"
    by (auto simp: ex_item_fields)
  with s show ?thesis by blast
qed

section \<open>Labels do not depend on the label span\<close>

text \<open>
  Claim C10. For two valid indices whose catalogue entries name the same recording (in one
  dataset, or in two datasets with the same \<open>num_frames\<close> over the same files, so also when
  the entries' spans differ), the calls return equal onset, offset, mpe and velocity
  tensors.
\<close>

theorem C10_labels_ignore_label_span:
  assumes "0 \<le> i" and "i < int (len a)" and "0 \<le> j" and "j < int (len b)"
    and "basename (datamapping a ! nat i) = basename (datamapping b ! nat j)"
    and "num_frames a = num_frames b"
    and "get_sample fs a i = Inr (s1, a')"
    and "get_sample fs b j = Inr (s2, b')"
  shows "onset s1 = onset s2 \<and> offset s1 = offset s2 \<and> mpe s1 = mpe s2 \<and>
         velocity s1 = velocity s2"
  using assms(5-8)
  unfolding get_sample_valid_iff [OF assms(1,2)] get_sample_valid_iff [OF assms(3,4)]
  by auto

theorem C10_labels_ignore_label_span_witness:
  "label (datamapping (ex_dataset 128) ! 0) \<noteq> label (datamapping (ex_dataset 128) ! 2) \<and>
   (\<exists>s2 self'. get_sample ex_files (ex_dataset 128) 2 = Inr (s2, self') \<and>
      onset s2 = onset ex_sample_0 \<and> offset s2 = offset ex_sample_0 \<and>
      mpe s2 = mpe ex_sample_0 \<and> velocity s2 = velocity ex_sample_0)"
proof -
  have li: "(0::int) \<le> 0" "0 < int (len (ex_dataset 128))"
    and lj: "(0::int) \<le> 2" "2 < int (len (ex_dataset 128))"
    by (simp_all add: ex_dataset_fields)
  have "\<exists>r. get_sample ex_files (ex_dataset 128) 2 = Inr r"
    unfolding get_sample_valid_iff [OF lj]
    by (simp add: ex_dataset_fields ex_entries ex_item_fields ex_files_def)
  then obtain s2 self' where r: "get_sample ex_files (ex_dataset 128) 2 = Inr (s2, self')"
    by (metis surj_pair)
  have b: "basename (datamapping (ex_dataset 128) ! nat 0) =
      basename (datamapping (ex_dataset 128) ! nat 2)"
    by (simp add: ex_dataset_fields ex_entries ex_item_fields)
  have l: "label (datamapping (ex_dataset 128) ! 0) \<noteq> label (datamapping (ex_dataset 128) ! 2)"
    by (simp add: ex_dataset_fields ex_entries ex_item_def)
  from C10_labels_ignore_label_span [OF li lj b refl ex_first_call r] r l
  show ?thesis by auto
qed

end
